theory Spec2Isabelle
  imports Complex_Main
begin

section \<open>Data model\<close>

text \<open>
  JavaScript numbers are IEEE-754 doubles. Every finite double is a real number, and the
  model keeps the values as \<^typ>\<open>real\<close>; but the operations \<open>*\<close>, \<open>-\<close> and \<open>/\<close> of the
  code round their results, so the model does not take them to be the exact ones:
  they are the parameters \<open>js_mul\<close>, \<open>js_sub\<close> and \<open>js_div\<close> of the environment, and a
  statement about a product is a statement about the product the code computes.
  Comparisons of finite doubles are those of the reals. NaN and the infinities are not
  modelled. Database identifiers are natural numbers; a nullable column or an optional
  property is an \<^typ>\<open>'a option\<close> (\<open>null\<close> and \<open>undefined\<close> are both \<open>None\<close>).
  Every \<open>throw\<close> of the source is a value of \<open>error\<close>; a property read on
  \<open>null\<close> is \<open>TypeError\<close>.
\<close>

datatype error =
    Error string
  | TypeError
  | Unauthorized string
  | Forbidden string
  | NotFound string
  | ValidationFailed string
  | BadRequest string

datatype TransactionTypes = CREDIT | DEBIT

datatype CollectiveType = USER | ORGANIZATION | COLLECTIVE | FUND | EVENT | PROJECT

text \<open>The \<open>data\<close> JSON column of a Collective: the key this code reads, and the rest.\<close>

record collective_data =
  useCustomHostFee :: "bool option"
  other_keys :: "(string \<times> string) list"

record collective =
  c_id :: nat
  c_name :: string
  c_type :: CollectiveType
  c_currency :: string
  c_isActive :: bool
  c_HostCollectiveId :: "nat option"
  c_ParentCollectiveId :: "nat option"
  c_approvedAt :: "nat option"
  c_hostFeePercent :: "real option"
  c_data :: "collective_data option"

record order_data =
  od_hostFeePercent :: "real option"
  od_platformFeePercent :: "real option"
  od_platformFee :: "real option"
  od_isFeesOnTop :: "bool option"

record paymentMethod =
  pm_id :: nat
  pm_CollectiveId :: "nat option"
  pm_currency :: string

record order =
  o_id :: nat
  o_CreatedByUserId :: nat
  o_FromCollectiveId :: nat
  o_CollectiveId :: nat
  o_PaymentMethodId :: nat
  o_totalAmount :: real
  o_currency :: string
  o_taxAmount :: "real option"
  o_description :: string
  o_data :: "order_data option"
  o_fromCollective :: collective
  o_collective :: collective
  o_paymentMethod :: paymentMethod

text \<open>
  A ledger transaction: the object \<open>payload.transaction\<close> that \<open>processOrder\<close> builds, and a
  row of the Transactions table (where the two collective ids are set).
\<close>

record transaction =
  t_type :: TransactionTypes
  t_OrderId :: "nat option"
  t_FromCollectiveId :: "nat option"
  t_CollectiveId :: "nat option"
  t_amount :: real
  t_currency :: string
  t_hostCurrency :: string
  t_hostCurrencyFxRate :: real
  t_netAmountInCollectiveCurrency :: real
  t_amountInHostCurrency :: real
  t_hostFeeInHostCurrency :: real
  t_platformFeeInHostCurrency :: real
  t_taxAmount :: "real option"
  t_paymentProcessorFeeInHostCurrency :: real
  t_description :: string
  t_isFeesOnTop :: "bool option"

record payload =
  p_CreatedByUserId :: nat
  p_FromCollectiveId :: nat
  p_CollectiveId :: nat
  p_PaymentMethodId :: nat
  p_transaction :: transaction

type_synonym ledger = "transaction list"

text \<open>
  The double operations of the language, and what the payment provider imports from
  files that are not part of the sources at hand: \<open>getFxRate\<close> (lib/currency),
  \<open>calcFee\<close> and \<open>createRefundTransaction\<close> (lib/payments), \<open>formatCurrency\<close>
  (lib/utils), and the model methods
  \<open>Collective.getHostCollective\<close>, \<open>Collective.getBalance\<close> and
  \<open>Transaction.createFromPayload\<close>. They are parameters of the model. The two creation
  routines return the created transaction and the new ledger; a persistence failure
  inside them is outside this model. \<open>createRefundTransaction\<close> takes the transaction,
  the refunded processor fee and the acting user (its third argument in the source is
  always \<open>null\<close> here and is left out).
\<close>

record payments_env =
  js_mul :: "real \<Rightarrow> real \<Rightarrow> real"
  js_sub :: "real \<Rightarrow> real \<Rightarrow> real"
  js_div :: "real \<Rightarrow> real \<Rightarrow> real"
  getFxRate :: "string \<Rightarrow> string \<Rightarrow> real"
  calcFee :: "real \<Rightarrow> real \<Rightarrow> real"
  formatCurrency :: "real \<Rightarrow> string \<Rightarrow> string"
  getHostCollective :: "collective \<Rightarrow> collective option"
  Collective_getBalance :: "ledger \<Rightarrow> nat \<Rightarrow> real"
  createFromPayload :: "payload \<Rightarrow> ledger \<Rightarrow> transaction \<times> ledger"
  createRefundTransaction :: "transaction \<Rightarrow> real \<Rightarrow> nat \<Rightarrow> ledger \<Rightarrow> transaction \<times> ledger"

section \<open>The collective-to-collective payment provider\<close>

text \<open>\<open>models.Collective.findByPk\<close> on the Collectives table.\<close>

definition findByPk :: "collective list \<Rightarrow> nat option \<Rightarrow> collective option" where
  "findByPk rows pk =
     (case pk of None \<Rightarrow> None | Some i \<Rightarrow> find (\<lambda>c. c_id c = i) rows)"

text \<open>
  \<open>paymentMethodProvider.getBalance\<close>: the balance of the payment method's collective.
  \<open>paymentMethod.getCollective()\<close> is \<open>null\<close> when the foreign key is.
\<close>

definition getBalance :: "payments_env \<Rightarrow> ledger \<Rightarrow> paymentMethod \<Rightarrow> error + real" where
  "getBalance env l pm =
     (case pm_CollectiveId pm of
        None \<Rightarrow> Inl TypeError
      | Some cid \<Rightarrow> Inr (Collective_getBalance env l cid))"

text \<open>\<open>get(order, 'data.hostFeePercent', 0)\<close> and its sibling, and \<open>order.data?.platformFee || 0\<close>.\<close>

definition order_hostFeePercent :: "order \<Rightarrow> real" where
  "order_hostFeePercent order =
     (case o_data order of None \<Rightarrow> 0
      | Some d \<Rightarrow> (case od_hostFeePercent d of None \<Rightarrow> 0 | Some p \<Rightarrow> p))"

definition order_platformFeePercent :: "order \<Rightarrow> real" where
  "order_platformFeePercent order =
     (case o_data order of None \<Rightarrow> 0
      | Some d \<Rightarrow> (case od_platformFeePercent d of None \<Rightarrow> 0 | Some p \<Rightarrow> p))"

definition order_feeOnTop :: "order \<Rightarrow> real" where
  "order_feeOnTop order =
     (case o_data order of None \<Rightarrow> 0
      | Some d \<Rightarrow> (case od_platformFee d of None \<Rightarrow> 0 | Some f \<Rightarrow> if f = 0 then 0 else f))"

definition order_isFeesOnTop :: "order \<Rightarrow> bool option" where
  "order_isFeesOnTop order =
     (case o_data order of None \<Rightarrow> None | Some d \<Rightarrow> od_isFeesOnTop d)"

text \<open>The payload of \<open>processOrder\<close> (lines 138 to 179), for the recipient's host.\<close>

definition processOrder_payload :: "payments_env \<Rightarrow> order \<Rightarrow> collective \<Rightarrow> payload" where
  "processOrder_payload env order collectiveHost =
     (let hostFeePercent = order_hostFeePercent order;
          platformFeePercent = order_platformFeePercent order;
          fxrate = getFxRate env (o_currency order) (pm_currency (o_paymentMethod order));
          totalAmountInPaymentMethodCurrency = js_mul env (o_totalAmount order) fxrate;
          feeOnTop = order_feeOnTop order;
          hostFeeInHostCurrency =
            calcFee env (js_mul env (js_sub env (o_totalAmount order) feeOnTop) fxrate)
              hostFeePercent;
          platformFeeInHostCurrency =
            (if feeOnTop = 0
             then calcFee env (js_mul env (o_totalAmount order) fxrate) platformFeePercent
             else js_mul env feeOnTop fxrate)
      in \<lparr> p_CreatedByUserId = o_CreatedByUserId order,
           p_FromCollectiveId = o_FromCollectiveId order,
           p_CollectiveId = o_CollectiveId order,
           p_PaymentMethodId = o_PaymentMethodId order,
           p_transaction =
             \<lparr> t_type = CREDIT,
               t_OrderId = Some (o_id order),
               t_FromCollectiveId = None,
               t_CollectiveId = None,
               t_amount = o_totalAmount order,
               t_currency = o_currency order,
               t_hostCurrency = c_currency collectiveHost,
               t_hostCurrencyFxRate = fxrate,
               t_netAmountInCollectiveCurrency =
                 js_mul env (o_totalAmount order)
                   (js_sub env 1 (js_div env hostFeePercent 100)),
               t_amountInHostCurrency = totalAmountInPaymentMethodCurrency,
               t_hostFeeInHostCurrency = hostFeeInHostCurrency,
               t_platformFeeInHostCurrency = platformFeeInHostCurrency,
               t_taxAmount = o_taxAmount order,
               t_paymentProcessorFeeInHostCurrency = 0,
               t_description = o_description order,
               t_isFeesOnTop = order_isFeesOnTop order \<rparr> \<rparr>)"

definition not_enough_funds :: "payments_env \<Rightarrow> real \<Rightarrow> string \<Rightarrow> string \<Rightarrow> real \<Rightarrow> string \<Rightarrow> string" where
  "not_enough_funds env balance cur what amount amount_cur =
     ''Not enough funds available ('' @ formatCurrency env balance cur @ '' left) to ''
       @ what @ '' ('' @ formatCurrency env amount amount_cur @ '')''"

definition processOrder :: "payments_env \<Rightarrow> order \<Rightarrow> ledger \<Rightarrow> (error + transaction) \<times> ledger" where
  "processOrder env order l =
     (if \<not> c_isActive (o_fromCollective order) then
        (Inl (Error ''Cannot use the Open Collective payment method if not active.''), l)
      else if pm_CollectiveId (o_paymentMethod order) \<noteq> Some (c_id (o_fromCollective order)) then
        (Inl (Error ''Cannot use the Open Collective payment method to make a payment on behalf of another collective''), l)
      else
        (case getHostCollective env (o_fromCollective order) of
           None \<Rightarrow> (Inl (Error ''Cannot use the Open Collective payment method without an Host.''), l)
         | Some fromCollectiveHost \<Rightarrow>
        (case getHostCollective env (o_collective order) of
           None \<Rightarrow> (Inl (Error ''Cannot use the Open Collective payment method to a recipient without an Host.''), l)
         | Some collectiveHost \<Rightarrow>
             if c_id fromCollectiveHost \<noteq> c_id collectiveHost then
               (Inl (Error (''Cannot use the Open Collective payment method to make a payment between different hosts: ''
                      @ c_name fromCollectiveHost @ '' -> '' @ c_name collectiveHost)), l)
             else
               (case getBalance env l (o_paymentMethod order) of
                  Inl e \<Rightarrow> (Inl e, l)
                | Inr balance \<Rightarrow>
                    if balance < o_totalAmount order then
                      (Inl (Error (not_enough_funds env balance (pm_currency (o_paymentMethod order))
                              ''execute this order'' (o_totalAmount order) (o_currency order))), l)
                    else
                      (case createFromPayload env (processOrder_payload env order collectiveHost) l of
                         (transactions, l') \<Rightarrow> (Inr transactions, l'))))))"

text \<open>
  \<open>refundTransaction\<close>: the two collectives are looked up by the transaction's ids and
  swapped for a DEBIT; \<open>!fromCollective.HostCollectiveId\<close> holds for \<open>null\<close> and for 0.
  The acting user is passed on by id.
\<close>

definition refundTransaction ::
  "payments_env \<Rightarrow> collective list \<Rightarrow> transaction \<Rightarrow> nat \<Rightarrow> ledger \<Rightarrow> (error + transaction) \<times> ledger" where
  "refundTransaction env rows tx user l =
     (let collectives = [findByPk rows (t_FromCollectiveId tx), findByPk rows (t_CollectiveId tx)];
          ordered = (if t_type tx = CREDIT then collectives else rev collectives);
          fromCollective = ordered ! 0;
          collective = ordered ! 1
      in case fromCollective of
           None \<Rightarrow> (Inl TypeError, l)
         | Some fc \<Rightarrow>
             if c_HostCollectiveId fc = None \<or> c_HostCollectiveId fc = Some 0 then
               (Inl (Error ''Cannot process refunds for collectives without a host''), l)
             else
               (case collective of
                  None \<Rightarrow> (Inl TypeError, l)
                | Some c \<Rightarrow>
                    if c_HostCollectiveId fc \<noteq> c_HostCollectiveId c then
                      (Inl (Error ''Cannot process refunds for collectives with different hosts''), l)
                    else
                      (let balance = Collective_getBalance env l (c_id c)
                       in if balance < t_amount tx then
                            (Inl (Error (not_enough_funds env balance (c_currency c)
                                    ''process this refund'' (t_amount tx) (t_currency tx))), l)
                          else
                            (case createRefundTransaction env tx 0 user l of
                               (refund, l') \<Rightarrow> (Inr refund, l')))))"


section \<open>Ledger entries, modelled from the spec\<close>

text \<open>
  \<open>Transaction.createFromPayload\<close>, \<open>Collective.getBalance\<close> and
  \<open>paymentsLib.createRefundTransaction\<close> are not among the sources. The spec says that
  the creation routine generates "the paired debit/credit rows", that "a Transaction's
  debit/credit pair must net to zero across the two ledger sides", and that a refund
  "creates an opposing ledger entry with zero processor fee". The definitions of this
  section follow these words.
\<close>

definition flip_type :: "TransactionTypes \<Rightarrow> TransactionTypes" where
  "flip_type ty = (case ty of CREDIT \<Rightarrow> DEBIT | DEBIT \<Rightarrow> CREDIT)"

text \<open>
  Modelled from the spec: the other side of a ledger movement (part of the missing
  \<open>Transaction.createFromPayload\<close>). The type is flipped and the amounts are negated, so
  that a row and its other side net to zero.
\<close>

definition negate_amounts :: "transaction \<Rightarrow> transaction" where
  "negate_amounts tx =
     tx \<lparr> t_type := flip_type (t_type tx),
          t_amount := - t_amount tx,
          t_netAmountInCollectiveCurrency := - t_netAmountInCollectiveCurrency tx,
          t_amountInHostCurrency := - t_amountInHostCurrency tx \<rparr>"

text \<open>
  Modelled from the spec: the row on the other collective's ledger side (part of the
  missing \<open>Transaction.createFromPayload\<close>), and "the paired debit/credit rows".
\<close>

definition mirror_row :: "transaction \<Rightarrow> transaction" where
  "mirror_row tx =
     (negate_amounts tx) \<lparr> t_FromCollectiveId := t_CollectiveId tx,
                           t_CollectiveId := t_FromCollectiveId tx \<rparr>"

definition paired_rows :: "transaction \<Rightarrow> transaction list" where
  "paired_rows tx = [tx, mirror_row tx]"

text \<open>
  Modelled from the spec: the "opposing ledger entry" of a refund (part of the missing
  \<open>paymentsLib.createRefundTransaction\<close>). It stays on the side of the refunded row,
  opposes its type and amounts, and carries the refunded processor fee it is given.
\<close>

definition opposing_entry :: "transaction \<Rightarrow> real \<Rightarrow> transaction" where
  "opposing_entry tx refundedPaymentProcessorFee =
     (negate_amounts tx) \<lparr> t_paymentProcessorFeeInHostCurrency := refundedPaymentProcessorFee \<rparr>"

text \<open>
  Modelled from the spec: \<open>Collective.getBalance\<close> is missing. The balance of a collective
  is the sum of the net amounts of the rows on its side of the ledger.
\<close>

definition ledger_balance :: "ledger \<Rightarrow> nat \<Rightarrow> real" where
  "ledger_balance l cid =
     sum_list (map t_netAmountInCollectiveCurrency (filter (\<lambda>r. t_CollectiveId r = Some cid) l))"

text \<open>
  Modelled from the spec: \<open>Transaction.createFromPayload\<close> is missing. The payload's
  transaction is stored for the payload's two collectives, with its paired row.
\<close>

definition ledger_createFromPayload :: "payload \<Rightarrow> ledger \<Rightarrow> transaction \<times> ledger" where
  "ledger_createFromPayload p l =
     (let row = (p_transaction p) \<lparr> t_FromCollectiveId := Some (p_FromCollectiveId p),
                                     t_CollectiveId := Some (p_CollectiveId p) \<rparr>
      in (row, l @ paired_rows row))"

text \<open>
  Modelled from the spec: \<open>paymentsLib.createRefundTransaction\<close> is missing. The opposing
  entry of the refunded row is stored with its paired row.
\<close>

definition ledger_createRefundTransaction ::
  "transaction \<Rightarrow> real \<Rightarrow> nat \<Rightarrow> ledger \<Rightarrow> transaction \<times> ledger" where
  "ledger_createRefundTransaction tx refundedPaymentProcessorFee user l =
     (let refund = opposing_entry tx refundedPaymentProcessorFee
      in (refund, l @ paired_rows refund))"

text \<open>An environment whose ledger routines are the ones of this section.\<close>

definition ledger_env :: "payments_env \<Rightarrow> payments_env" where
  "ledger_env env =
     env \<lparr> Collective_getBalance := ledger_balance,
           createFromPayload := ledger_createFromPayload,
           createRefundTransaction := ledger_createRefundTransaction \<rparr>"

section \<open>Account mutations\<close>

datatype TwoFactorMethod = TOTP | YUBIKEY_OTP | WEBAUTHN | RECOVERY_CODE

record webauthn_device =
  wd_description :: "string option"
  wd_credential :: string

datatype method_data =
    Secret string
  | YubikeyDeviceId string
  | WebauthnData webauthn_device

record UserTwoFactorMethod =
  m_id :: nat
  m_UserId :: nat
  m_method :: TwoFactorMethod
  m_name :: string
  m_data :: method_data

record user =
  u_id :: nat
  u_CollectiveId :: nat
  u_twoFactorAuthRecoveryCodes :: "string list option"

datatype activity_type = COLLECTIVE_EDITED | TWO_FACTOR_METHOD_ADDED | TWO_FACTOR_METHOD_DELETED

datatype activity_data =
    NoData
  | FeeStructureData "real option" "bool option" real bool
  | DeletedMethodData "UserTwoFactorMethod option"

record activity =
  a_type :: activity_type
  a_UserId :: nat
  a_UserTokenId :: "nat option"
  a_CollectiveId :: nat
  a_FromCollectiveId :: nat
  a_HostCollectiveId :: "nat option"
  a_data :: activity_data

record db =
  Collectives :: "collective list"
  Users :: "user list"
  UserTwoFactorMethods :: "UserTwoFactorMethod list"
  Activities :: "activity list"

text \<open>The logged-in user of a request, with the two permission methods the resolvers call.\<close>

record remote_user =
  ru_id :: nat
  isAdminOfCollective :: "collective option \<Rightarrow> bool"
  isAdmin :: "nat \<Rightarrow> bool"

record request =
  remoteUser :: "remote_user option"
  userToken_id :: "nat option"

record validate_options =
  alwaysAskForToken :: bool
  requireTwoFactorAuthEnabled :: bool

datatype AccountFreezeAction = FREEZE | UNFREEZE

text \<open>
  What the resolvers import from files that are not part of the sources at hand, as
  parameters: the scope checks (\<open>Some e\<close> when they throw \<open>e\<close>), the two fetchers by
  reference (given the database, the reference and the \<open>throwIfMissing\<close> option, they
  throw or return the row or \<open>null\<close>), the two-factor library,
  the encryption helpers, the random source (\<open>cryptoRandomString i\<close> is the i-th draw),
  the WebAuthn verification (parsing, verification and device data in one step), and the
  Collective methods \<open>getHostCollective\<close>, \<open>getChildren\<close>, \<open>freeze\<close> and \<open>unfreeze\<close>
  (which return the error they throw, if any, and the new database).
\<close>

record account_lib =
  checkRemoteUserCanUseAccount :: "request \<Rightarrow> error option"
  checkRemoteUserCanUseHost :: "request \<Rightarrow> error option"
  fetchAccountWithReference :: "db \<Rightarrow> nat \<Rightarrow> bool \<Rightarrow> error + collective option"
  fetchUserTwoFactorMethodWithReference ::
    "db \<Rightarrow> nat \<Rightarrow> bool \<Rightarrow> error + UserTwoFactorMethod option"
  twoFactorMethodsSupportedByUser :: "UserTwoFactorMethod list \<Rightarrow> user \<Rightarrow> TwoFactorMethod list"
  validateRequest :: "request \<Rightarrow> validate_options \<Rightarrow> error option"
  validateYubikeyOTP :: "string \<Rightarrow> bool"
  webauthn_registration :: "user \<Rightarrow> request \<Rightarrow> string \<Rightarrow> error + webauthn_device"
  crypto_encrypt :: "string \<Rightarrow> string"
  crypto_hash :: "string \<Rightarrow> string"
  cryptoRandomString :: "nat \<Rightarrow> string"
  account_getHostCollective :: "db \<Rightarrow> collective \<Rightarrow> collective option"
  getChildren :: "collective list \<Rightarrow> collective \<Rightarrow> collective list"
  freeze :: "collective \<Rightarrow> string option \<Rightarrow> db \<Rightarrow> error option \<times> db"
  unfreeze :: "collective \<Rightarrow> string option \<Rightarrow> db \<Rightarrow> error option \<times> db"

definition falsy_id :: "nat option \<Rightarrow> bool" where
  "falsy_id x = (x = None \<or> x = Some 0)"

subsection \<open>editAccountFeeStructure\<close>

record fee_structure_args =
  fs_account :: nat
  fs_hostFeePercent :: real
  fs_isCustomFee :: bool

text \<open>\<open>{ ...account.data, useCustomHostFee: args.isCustomFee }\<close>\<close>

definition spread_useCustomHostFee :: "collective_data option \<Rightarrow> bool \<Rightarrow> collective_data" where
  "spread_useCustomHostFee data flag =
     (case data of
        None \<Rightarrow> \<lparr> useCustomHostFee = Some flag, other_keys = [] \<rparr>
      | Some d \<Rightarrow> d \<lparr> useCustomHostFee := Some flag \<rparr>)"

text \<open>The values \<open>updateAccountFees\<close> writes for an instance, and the UPDATE of its row.\<close>

definition with_fees :: "real option \<Rightarrow> bool \<Rightarrow> collective \<Rightarrow> collective" where
  "with_fees hostFeePercent flag account =
     account \<lparr> c_hostFeePercent := hostFeePercent,
               c_data := Some (spread_useCustomHostFee (c_data account) flag) \<rparr>"

definition updateAccountFees :: "real option \<Rightarrow> bool \<Rightarrow> collective \<Rightarrow> collective list \<Rightarrow> collective list" where
  "updateAccountFees hostFeePercent flag account rows =
     map (\<lambda>r. if c_id r = c_id account
              then r \<lparr> c_hostFeePercent := hostFeePercent,
                       c_data := Some (spread_useCustomHostFee (c_data account) flag) \<rparr>
              else r) rows"

definition data_useCustomHostFee :: "collective \<Rightarrow> bool option" where
  "data_useCustomHostFee account =
     (case c_data account of None \<Rightarrow> None | Some d \<Rightarrow> useCustomHostFee d)"

text \<open>
  The fee percent the mutation applies: the submitted one for a custom fee, the host's
  own otherwise (a TypeError when the host row is missing).
\<close>

definition applied_hostFeePercent :: "fee_structure_args \<Rightarrow> collective option \<Rightarrow> error + real option" where
  "applied_hostFeePercent args host =
     (if fs_isCustomFee args then Inr (Some (fs_hostFeePercent args))
      else (case host of None \<Rightarrow> Inl TypeError | Some h \<Rightarrow> Inr (c_hostFeePercent h)))"

text \<open>
  The resolver runs inside \<open>sequelize.transaction\<close>: when it throws, the transaction is
  rolled back and the database is the one it started from. \<open>req.remoteUser?.isAdmin\<close> is
  false without a remote user; \<open>Promise.all\<close> over the children is a fold in list order.
\<close>

definition editAccountFeeStructure ::
  "account_lib \<Rightarrow> fee_structure_args \<Rightarrow> request \<Rightarrow> db \<Rightarrow> (error + collective) \<times> db" where
  "editAccountFeeStructure lib args req d =
     (case checkRemoteUserCanUseHost lib req of
        Some e \<Rightarrow> (Inl e, d)
      | None \<Rightarrow>
     (case fetchAccountWithReference lib d (fs_account args) True of
        Inl e \<Rightarrow> (Inl e, d)
      | Inr None \<Rightarrow> (Inl TypeError, d)
      | Inr (Some account) \<Rightarrow>
          if falsy_id (c_HostCollectiveId account) then
            (Inl (ValidationFailed ''Fees structure can only be edited for accounts that you are hosting''), d)
          else if \<not> (case remoteUser req of
                       None \<Rightarrow> False
                     | Some ru \<Rightarrow>
                         (case c_HostCollectiveId account of
                            None \<Rightarrow> False
                          | Some hostId \<Rightarrow> isAdmin ru hostId)) then
            (Inl (Forbidden ''You need to be logged in as an host admin to change the fees structure of the hosted accounts''), d)
          else if c_approvedAt account = None then
            (Inl (ValidationFailed ''The collective needs to be approved before you can change the fees structure''), d)
          else
            (case applied_hostFeePercent args (findByPk (Collectives d) (c_HostCollectiveId account)) of
               Inl e \<Rightarrow> (Inl e, d)
             | Inr hostFeePercent \<Rightarrow>
                 (let previousData =
                        (c_hostFeePercent account, data_useCustomHostFee account);
                      rows1 = updateAccountFees hostFeePercent (fs_isCustomFee args) account (Collectives d);
                      children = getChildren lib rows1 account;
                      rows2 = fold (updateAccountFees hostFeePercent (fs_isCustomFee args)) children rows1
                  in (case remoteUser req of
                        None \<Rightarrow> (Inl TypeError, d)
                      | Some ru \<Rightarrow>
                          (Inr (with_fees hostFeePercent (fs_isCustomFee args) account),
                           d \<lparr> Collectives := rows2,
                               Activities := Activities d @
                                 [\<lparr> a_type = COLLECTIVE_EDITED,
                                    a_UserId = ru_id ru,
                                    a_UserTokenId = userToken_id req,
                                    a_CollectiveId = c_id account,
                                    a_FromCollectiveId = c_id account,
                                    a_HostCollectiveId = c_HostCollectiveId account,
                                    a_data = FeeStructureData (fst previousData) (snd previousData)
                                               (fs_hostFeePercent args) (fs_isCustomFee args) \<rparr>] \<rparr>))))))"

subsection \<open>editAccountFreezeStatus\<close>

record freeze_args =
  fz_account :: nat
  fz_action :: AccountFreezeAction
  fz_message :: "string option"

text \<open>\<open>account.reload()\<close> reads the row again and throws when it is gone.\<close>

definition reload :: "db \<Rightarrow> collective \<Rightarrow> error + collective" where
  "reload d account =
     (case findByPk (Collectives d) (Some (c_id account)) of
        None \<Rightarrow> Inl (Error ''Instance could not be reloaded because it does not exist anymore'')
      | Some row \<Rightarrow> Inr row)"

definition editAccountFreezeStatus ::
  "account_lib \<Rightarrow> freeze_args \<Rightarrow> request \<Rightarrow> db \<Rightarrow> (error + collective) \<times> db" where
  "editAccountFreezeStatus lib args req d =
     (case checkRemoteUserCanUseHost lib req of
        Some e \<Rightarrow> (Inl e, d)
      | None \<Rightarrow>
     (case fetchAccountWithReference lib d (fz_account args) True of
        Inl e \<Rightarrow> (Inl e, d)
      | Inr None \<Rightarrow> (Inl TypeError, d)
      | Inr (Some account) \<Rightarrow>
     (case account_getHostCollective lib d account of
        None \<Rightarrow> (Inl (ValidationFailed ''Cannot find the host of this account''), d)
      | Some host \<Rightarrow>
     (case remoteUser req of
        None \<Rightarrow> (Inl TypeError, d)
      | Some ru \<Rightarrow>
          if \<not> isAdminOfCollective ru (Some host) then (Inl (Unauthorized []), d)
          else if c_type account \<noteq> COLLECTIVE \<and> c_type account \<noteq> FUND then
            (Inl (ValidationFailed ''Only collective and funds can be frozen. To freeze children accounts (projects, events) you need to freeze the parent account.''), d)
          else
            (case (case fz_action args of
                     FREEZE \<Rightarrow> freeze lib account (fz_message args) d
                   | UNFREEZE \<Rightarrow> unfreeze lib account (fz_message args) d) of
               (Some e, d') \<Rightarrow> (Inl e, d')
             | (None, d') \<Rightarrow> (reload d' account, d'))))))"

subsection \<open>addTwoFactorAuthTokenToIndividual\<close>

record add_2fa_args =
  add_account :: nat
  add_type :: "TwoFactorMethod option"
  add_token :: string

record add_2fa_response =
  r_account :: collective
  r_recoveryCodes :: "string list option"

text \<open>
  \<open>args.token.match(/([A-Z2-7]){103}/)\<close>: the token holds 103 consecutive characters of
  the base32 alphabet somewhere (the pattern is not anchored). \<open>k\<close> counts the current run.
\<close>

definition is_base32 :: "char \<Rightarrow> bool" where
  "is_base32 c =
     (let n = (of_char c :: nat) in (65 \<le> n \<and> n \<le> 90) \<or> (50 \<le> n \<and> n \<le> 55))"

fun base32_run :: "nat \<Rightarrow> string \<Rightarrow> bool" where
  "base32_run k [] = (103 \<le> k)"
| "base32_run k (c # cs) =
     (if 103 \<le> k then True
      else if is_base32 c then base32_run (Suc k) cs
      else base32_run 0 cs)"

definition verifyToken :: "string \<Rightarrow> bool" where
  "verifyToken token = base32_run 0 token"

text \<open>The id the database gives a new row.\<close>

definition next_id :: "UserTwoFactorMethod list \<Rightarrow> nat" where
  "next_id rows = Suc (fold max (map m_id rows) 0)"

definition UserTwoFactorMethod_create ::
  "nat \<Rightarrow> TwoFactorMethod \<Rightarrow> string \<Rightarrow> method_data \<Rightarrow> db \<Rightarrow> db" where
  "UserTwoFactorMethod_create uid method name data d =
     d \<lparr> UserTwoFactorMethods := UserTwoFactorMethods d @
           [\<lparr> m_id = next_id (UserTwoFactorMethods d), m_UserId = uid,
              m_method = method, m_name = name, m_data = data \<rparr>] \<rparr>"

text \<open>The \<open>switch (type)\<close> of the enrollment: the credential is validated and stored.\<close>

definition enroll_method ::
  "account_lib \<Rightarrow> TwoFactorMethod \<Rightarrow> string \<Rightarrow> user \<Rightarrow> request \<Rightarrow> db \<Rightarrow> error + db" where
  "enroll_method lib type token usr req d =
     (case type of
        TOTP \<Rightarrow>
          if \<not> verifyToken token then Inl (ValidationFailed ''Invalid 2FA token'')
          else Inr (UserTwoFactorMethod_create (u_id usr) TOTP ''Authenticator''
                      (Secret (crypto_encrypt lib token)) d)
      | YUBIKEY_OTP \<Rightarrow>
          if \<not> validateYubikeyOTP lib token then Inl (ValidationFailed ''Invalid 2FA token'')
          else Inr (UserTwoFactorMethod_create (u_id usr) YUBIKEY_OTP
                      (''Yubikey '' @ take 12 token) (YubikeyDeviceId (take 12 token)) d)
      | WEBAUTHN \<Rightarrow>
          (case webauthn_registration lib usr req token of
             Inl e \<Rightarrow> Inl e
           | Inr data \<Rightarrow>
               Inr (UserTwoFactorMethod_create (u_id usr) WEBAUTHN
                      (case wd_description data of
                         None \<Rightarrow> ''U2F device''
                       | Some n \<Rightarrow> if n = [] then ''U2F device'' else n)
                      (WebauthnData data) d))
      | RECOVERY_CODE \<Rightarrow> Inl (ValidationFailed ''Unsupported 2FA method''))"

text \<open>\<open>user.update({ twoFactorAuthRecoveryCodes: ... })\<close>\<close>

definition update_recoveryCodes :: "user \<Rightarrow> string list option \<Rightarrow> db \<Rightarrow> db" where
  "update_recoveryCodes usr codes d =
     d \<lparr> Users := map (\<lambda>u. if u_id u = u_id usr
                            then u \<lparr> u_twoFactorAuthRecoveryCodes := codes \<rparr> else u) (Users d) \<rparr>"

definition Activity_create :: "activity \<Rightarrow> db \<Rightarrow> db" where
  "Activity_create act d = d \<lparr> Activities := Activities d @ [act] \<rparr>"

text \<open>\<open>models.User.findOne({ where: { CollectiveId: account.id } })\<close>\<close>

definition findUser :: "db \<Rightarrow> nat \<Rightarrow> user option" where
  "findUser d cid = find (\<lambda>u. u_CollectiveId u = cid) (Users d)"

definition addTwoFactorAuthTokenToIndividual ::
  "account_lib \<Rightarrow> add_2fa_args \<Rightarrow> request \<Rightarrow> db \<Rightarrow> (error + add_2fa_response) \<times> db" where
  "addTwoFactorAuthTokenToIndividual lib args req d =
     (case checkRemoteUserCanUseAccount lib req of
        Some e \<Rightarrow> (Inl e, d)
      | None \<Rightarrow>
     (case fetchAccountWithReference lib d (add_account args) False of
        Inl e \<Rightarrow> (Inl e, d)
      | Inr fetched \<Rightarrow>
     (case remoteUser req of
        None \<Rightarrow> (Inl TypeError, d)
      | Some ru \<Rightarrow>
          if \<not> isAdminOfCollective ru fetched then (Inl (Forbidden []), d)
          else
     (case fetched of
        None \<Rightarrow> (Inl TypeError, d)
      | Some account \<Rightarrow>
     (case findUser d (c_id account) of
        None \<Rightarrow> (Inl (NotFound ''Account not found.''), d)
      | Some usr \<Rightarrow>
          (let type = (case add_type args of None \<Rightarrow> TOTP | Some t \<Rightarrow> t);
               userEnabledMethods = twoFactorMethodsSupportedByUser lib (UserTwoFactorMethods d) usr
           in case (if 0 < length userEnabledMethods
                    then validateRequest lib req
                           \<lparr> alwaysAskForToken = True, requireTwoFactorAuthEnabled = False \<rparr>
                    else None) of
                Some e \<Rightarrow> (Inl e, d)
              | None \<Rightarrow>
             (case enroll_method lib type (add_token args) usr req d of
                Inl e \<Rightarrow> (Inl e, d)
              | Inr d1 \<Rightarrow>
                  (let recoveryCodesArray =
                         (if length userEnabledMethods = 0
                          then Some (map (cryptoRandomString lib) [0..<6]) else None);
                       d2 = (case recoveryCodesArray of
                               None \<Rightarrow> d1
                             | Some codes \<Rightarrow>
                                 update_recoveryCodes usr (Some (map (crypto_hash lib) codes)) d1);
                       d3 = Activity_create
                              \<lparr> a_type = TWO_FACTOR_METHOD_ADDED,
                                a_UserId = u_id usr,
                                a_UserTokenId = None,
                                a_CollectiveId = u_CollectiveId usr,
                                a_FromCollectiveId = u_CollectiveId usr,
                                a_HostCollectiveId = None,
                                a_data = NoData \<rparr> d2
                   in (Inr \<lparr> r_account = account, r_recoveryCodes = recoveryCodesArray \<rparr>, d3)))))))))"

subsection \<open>removeTwoFactorAuthTokenFromIndividual\<close>





section \<open>Fee computation, modelled from the spec\<close>

text \<open>
  Modelled from the spec: \<open>paymentsLib.calcFee\<close> is not among the sources. The spec says
  the "fee fields are proportional to their configured percentages": the fee on an
  amount is that percentage of it.
\<close>

definition proportional_fee :: "real \<Rightarrow> real \<Rightarrow> real" where
  "proportional_fee amount fee = amount * fee / 100"

section \<open>A concrete platform\<close>

text \<open>
  One host (1) with two hosted collectives (2, 3) and an event (6) of collective 3;
  another host (4) with one hosted collective (5); two individuals (7, 8).
\<close>

definition mk_collective :: "nat \<Rightarrow> string \<Rightarrow> CollectiveType \<Rightarrow> nat option \<Rightarrow> nat option \<Rightarrow> real option \<Rightarrow> collective" where
  "mk_collective i name ty host parent fee =
     \<lparr> c_id = i, c_name = name, c_type = ty, c_currency = ''USD'', c_isActive = True,
       c_HostCollectiveId = host, c_ParentCollectiveId = parent, c_approvedAt = Some 1,
       c_hostFeePercent = fee, c_data = None \<rparr>"

definition ex_host :: collective where
  "ex_host = mk_collective 1 ''Host'' ORGANIZATION (Some 1) None (Some 10)"

definition ex_payer :: collective where
  "ex_payer = mk_collective 2 ''Payer'' COLLECTIVE (Some 1) None (Some 10)"

definition ex_recipient :: collective where
  "ex_recipient = mk_collective 3 ''Recipient'' COLLECTIVE (Some 1) None (Some 7)"

definition ex_other_host :: collective where
  "ex_other_host = mk_collective 4 ''Other'' ORGANIZATION (Some 4) None (Some 5)"

definition ex_stranger :: collective where
  "ex_stranger = mk_collective 5 ''Stranger'' COLLECTIVE (Some 4) None (Some 5)"

definition ex_event :: collective where
  "ex_event = mk_collective 6 ''Event'' EVENT (Some 1) (Some 3) (Some 7)"

definition ex_alice :: collective where
  "ex_alice = mk_collective 7 ''Alice'' USER None None None"

definition ex_bob :: collective where
  "ex_bob = mk_collective 8 ''Bob'' USER None None None"

definition ex_rows :: "collective list" where
  "ex_rows = [ex_host, ex_payer, ex_recipient, ex_other_host, ex_stranger, ex_event,
              ex_alice, ex_bob]"

text \<open>
  The amounts, rates and percents of the examples are chosen so that every product,
  difference and quotient the code forms on them is exact in doubles (integers far
  below \<open>2 ^ 53\<close>, and the quotients 25 / 100, 50 / 100 and 75 / 100); on them the
  double operations are the exact ones, which the environment of the examples uses.
\<close>

definition ex_env :: payments_env where
  "ex_env =
     \<lparr> js_mul = (\<lambda>a b. a * b),
       js_sub = (\<lambda>a b. a - b),
       js_div = (\<lambda>a b. a / b),
       getFxRate = (\<lambda>a b. if a = b then 1 else 2),
       calcFee = proportional_fee,
       formatCurrency = (\<lambda>amount cur. cur),
       getHostCollective = (\<lambda>c. findByPk ex_rows (c_HostCollectiveId c)),
       Collective_getBalance = ledger_balance,
       createFromPayload = ledger_createFromPayload,
       createRefundTransaction = ledger_createRefundTransaction \<rparr>"

definition ex_order :: "collective \<Rightarrow> real option \<Rightarrow> order" where
  "ex_order recipient platformFee =
     \<lparr> o_id = 7, o_CreatedByUserId = 1, o_FromCollectiveId = 2, o_CollectiveId = c_id recipient,
       o_PaymentMethodId = 1, o_totalAmount = 1000, o_currency = ''EUR'',
       o_taxAmount = None, o_description = ''Donation'',
       o_data = Some \<lparr> od_hostFeePercent = Some 25, od_platformFeePercent = Some 50,
                        od_platformFee = platformFee, od_isFeesOnTop = None \<rparr>,
       o_fromCollective = ex_payer, o_collective = recipient,
       o_paymentMethod = \<lparr> pm_id = 1, pm_CollectiveId = Some 2, pm_currency = ''USD'' \<rparr> \<rparr>"

definition ex_order_data :: "order_data option \<Rightarrow> order" where
  "ex_order_data dt = (ex_order ex_recipient None) \<lparr> o_data := dt \<rparr>"

definition ex_row :: "nat \<Rightarrow> nat \<Rightarrow> real \<Rightarrow> transaction" where
  "ex_row from to amount =
     \<lparr> t_type = CREDIT, t_OrderId = None, t_FromCollectiveId = Some from,
       t_CollectiveId = Some to, t_amount = amount, t_currency = ''USD'',
       t_hostCurrency = ''USD'', t_hostCurrencyFxRate = 1,
       t_netAmountInCollectiveCurrency = amount, t_amountInHostCurrency = amount,
       t_hostFeeInHostCurrency = 0, t_platformFeeInHostCurrency = 0, t_taxAmount = None,
       t_paymentProcessorFeeInHostCurrency = 0, t_description = ''Added funds'',
       t_isFeesOnTop = None \<rparr>"

definition ex_ledger :: ledger where
  "ex_ledger = [ex_row 1 2 5000]"

text \<open>
  Alice (user 1) has no two-factor method; Bob (user 2) has an authenticator and stored
  recovery codes. The host admin (user 9) administers host 1.
\<close>

definition ex_db :: db where
  "ex_db =
     \<lparr> Collectives = ex_rows,
       Users = [\<lparr> u_id = 1, u_CollectiveId = 7, u_twoFactorAuthRecoveryCodes = None \<rparr>,
                \<lparr> u_id = 2, u_CollectiveId = 8, u_twoFactorAuthRecoveryCodes = Some [''h'', ''k''] \<rparr>],
       UserTwoFactorMethods =
         [\<lparr> m_id = 1, m_UserId = 2, m_method = TOTP, m_name = ''Authenticator'',
            m_data = Secret ''s'' \<rparr>],
       Activities = [] \<rparr>"


definition set_frozen :: "string \<Rightarrow> collective \<Rightarrow> collective" where
  "set_frozen v a =
     a \<lparr> c_data := Some (case c_data a of
                           None \<Rightarrow> \<lparr> useCustomHostFee = None, other_keys = [(''frozen'', v)] \<rparr>
                         | Some dt \<Rightarrow> dt \<lparr> other_keys := (''frozen'', v) # other_keys dt \<rparr>) \<rparr>"

definition ex_freeze :: "string \<Rightarrow> collective \<Rightarrow> string option \<Rightarrow> db \<Rightarrow> error option \<times> db" where
  "ex_freeze v a message d =
     (None, d \<lparr> Collectives := map (\<lambda>r. if c_id r = c_id a then set_frozen v r else r)
                                     (Collectives d) \<rparr>)"

definition ex_lib :: account_lib where
  "ex_lib =
     \<lparr> checkRemoteUserCanUseAccount =
         (\<lambda>req. case remoteUser req of None \<Rightarrow> Some (Unauthorized ''You need to be logged in'')
                 | Some u \<Rightarrow> None),
       checkRemoteUserCanUseHost =
         (\<lambda>req. case remoteUser req of None \<Rightarrow> Some (Unauthorized ''You need to be logged in'')
                 | Some u \<Rightarrow> None),
       fetchAccountWithReference =
         (\<lambda>d ref throwIfMissing.
            case findByPk (Collectives d) (Some ref) of
              None \<Rightarrow> if throwIfMissing then Inl (NotFound ''Account Not Found'') else Inr None
            | Some a \<Rightarrow> Inr (Some a)),
       fetchUserTwoFactorMethodWithReference =
         (\<lambda>d ref throwIfMissing.
            case find (\<lambda>m. m_id m = ref) (UserTwoFactorMethods d) of
              None \<Rightarrow> if throwIfMissing then Inl (NotFound ''Two-factor method Not Found'')
                      else Inr None
            | Some m \<Rightarrow> Inr (Some m)),
       twoFactorMethodsSupportedByUser =
         (\<lambda>rows u. remdups (map m_method (filter (\<lambda>m. m_UserId m = u_id u) rows))),
       validateRequest = (\<lambda>req opts. None),
       validateYubikeyOTP = (\<lambda>token. length token = 14),
       webauthn_registration = (\<lambda>u req token. Inl (ValidationFailed ''Invalid registration'')),
       crypto_encrypt = (\<lambda>s. ''enc:'' @ s),
       crypto_hash = (\<lambda>s. ''hash:'' @ s),
       cryptoRandomString = (\<lambda>i. replicate (Suc i) CHR ''x''),
       account_getHostCollective = (\<lambda>d c. findByPk (Collectives d) (c_HostCollectiveId c)),
       getChildren = (\<lambda>rows a. filter (\<lambda>c. c_ParentCollectiveId c = Some (c_id a)) rows),
       freeze = ex_freeze ''true'',
       unfreeze = ex_freeze ''false'' \<rparr>"

definition ex_request :: "nat \<Rightarrow> nat list \<Rightarrow> request" where
  "ex_request uid administered =
     \<lparr> remoteUser = Some \<lparr> ru_id = uid,
                            isAdminOfCollective =
                              (\<lambda>c. case c of None \<Rightarrow> False | Some a \<Rightarrow> c_id a \<in> set administered),
                            isAdmin = (\<lambda>i. i \<in> set administered) \<rparr>,
       userToken_id = None \<rparr>"

section \<open>Properties of the payment provider\<close>

lemmas ex_defs = ex_env_def ex_order_def ex_row_def ex_ledger_def ex_rows_def
  ex_host_def ex_payer_def ex_recipient_def ex_other_host_def ex_stranger_def ex_event_def
  mk_collective_def ex_alice_def ex_bob_def

text \<open>What an accepted order went through, and the fields of the payload it is made into.\<close>

lemma processOrder_accepted:
  assumes "processOrder env order l = (Inr tx, l')"
  shows "\<exists>collectiveHost.
      getHostCollective env (o_collective order) = Some collectiveHost \<and>
      (tx, l') = createFromPayload env (processOrder_payload env order collectiveHost) l"
  using assms unfolding processOrder_def
  by (simp split: if_splits option.splits sum.splits prod.splits)

lemma order_feeOnTop_raw:
  "order_feeOnTop order =
     (case o_data order of None \<Rightarrow> 0
      | Some dt \<Rightarrow> (case od_platformFee dt of None \<Rightarrow> 0 | Some f \<Rightarrow> f))"
  by (simp add: order_feeOnTop_def split: option.splits)

lemma processOrder_payload_fields:
  "t_amountInHostCurrency (p_transaction (processOrder_payload env order h)) =
     js_mul env (o_totalAmount order)
       (getFxRate env (o_currency order) (pm_currency (o_paymentMethod order)))"
  "t_hostFeeInHostCurrency (p_transaction (processOrder_payload env order h)) =
     calcFee env
       (js_mul env (js_sub env (o_totalAmount order) (order_feeOnTop order))
          (getFxRate env (o_currency order) (pm_currency (o_paymentMethod order))))
       (order_hostFeePercent order)"
  "t_platformFeeInHostCurrency (p_transaction (processOrder_payload env order h)) =
     (if order_feeOnTop order = 0
      then calcFee env
             (js_mul env (o_totalAmount order)
                (getFxRate env (o_currency order) (pm_currency (o_paymentMethod order))))
             (order_platformFeePercent order)
      else js_mul env (order_feeOnTop order)
             (getFxRate env (o_currency order) (pm_currency (o_paymentMethod order))))"
  "t_amount (p_transaction (processOrder_payload env order h)) = o_totalAmount order"
  "t_hostCurrencyFxRate (p_transaction (processOrder_payload env order h)) =
     getFxRate env (o_currency order) (pm_currency (o_paymentMethod order))"
  by (simp_all add: processOrder_payload_def Let_def)

lemma ledger_createFromPayload_row:
  assumes "(tx, l') = ledger_createFromPayload p l"
  shows "t_amountInHostCurrency tx = t_amountInHostCurrency (p_transaction p)"
    "t_hostFeeInHostCurrency tx = t_hostFeeInHostCurrency (p_transaction p)"
    "t_platformFeeInHostCurrency tx = t_platformFeeInHostCurrency (p_transaction p)"
    "t_amount tx = t_amount (p_transaction p)"
    "t_hostCurrencyFxRate tx = t_hostCurrencyFxRate (p_transaction p)"
    "t_FromCollectiveId tx = Some (p_FromCollectiveId p)"
    "t_CollectiveId tx = Some (p_CollectiveId p)"
    "l' = l @ paired_rows tx"
  using assms by (simp_all add: ledger_createFromPayload_def Let_def)

text \<open>
  Claim C1. For every order that \<open>processOrder\<close> accepts, the transaction is the one the
  ledger creation routine makes of the payload. The percents are read from the order's
  data (0 when the data or the field is missing), and so is the fee on top. In the
  payload's transaction, \<open>amountInHostCurrency\<close> is the order's total amount times the fx
  rate obtained from \<open>getFxRate\<close> (order currency to payment method currency); the host
  fee is \<open>calcFee\<close> of the total minus the fee on top, converted, at the host fee percent;
  the platform fee is \<open>calcFee\<close> of the converted total at the platform fee percent, or
  the converted fee on top when there is one. Products and differences are the double
  operations of the code. With the creation routine of the spec, the created
  transaction carries these three fields, the order's total amount, the fx rate and the
  order's two collectives, and it is stored with its paired row. With the proportional
  \<open>calcFee\<close> of the spec, both fees are that percentage of their base.
\<close>

theorem processOrder_amounts:
  assumes "processOrder env order l = (Inr tx, l')"
  shows "\<exists>collectiveHost.
      getHostCollective env (o_collective order) = Some collectiveHost \<and>
      (tx, l') = createFromPayload env (processOrder_payload env order collectiveHost) l \<and>
      (let hostFeePercent =
             (case o_data order of None \<Rightarrow> 0
              | Some dt \<Rightarrow> (case od_hostFeePercent dt of None \<Rightarrow> 0 | Some p \<Rightarrow> p));
           platformFeePercent =
             (case o_data order of None \<Rightarrow> 0
              | Some dt \<Rightarrow> (case od_platformFeePercent dt of None \<Rightarrow> 0 | Some p \<Rightarrow> p));
           feeOnTop =
             (case o_data order of None \<Rightarrow> 0
              | Some dt \<Rightarrow> (case od_platformFee dt of None \<Rightarrow> 0 | Some f \<Rightarrow> f));
           fxrate = getFxRate env (o_currency order) (pm_currency (o_paymentMethod order));
           amountInHostCurrency = js_mul env (o_totalAmount order) fxrate;
           hostFeeBase = js_mul env (js_sub env (o_totalAmount order) feeOnTop) fxrate;
           hostFee = calcFee env hostFeeBase hostFeePercent;
           platformFee =
             (if feeOnTop = 0 then calcFee env amountInHostCurrency platformFeePercent
              else js_mul env feeOnTop fxrate);
           t = p_transaction (processOrder_payload env order collectiveHost)
       in t_amountInHostCurrency t = amountInHostCurrency \<and>
          t_hostFeeInHostCurrency t = hostFee \<and>
          t_platformFeeInHostCurrency t = platformFee \<and>
          (createFromPayload env = ledger_createFromPayload \<longrightarrow>
             t_amountInHostCurrency tx = amountInHostCurrency \<and>
             t_hostFeeInHostCurrency tx = hostFee \<and>
             t_platformFeeInHostCurrency tx = platformFee \<and>
             t_amount tx = o_totalAmount order \<and>
             t_hostCurrencyFxRate tx = fxrate \<and>
             t_FromCollectiveId tx = Some (o_FromCollectiveId order) \<and>
             t_CollectiveId tx = Some (o_CollectiveId order) \<and>
             l' = l @ paired_rows tx) \<and>
          (calcFee env = proportional_fee \<longrightarrow>
             hostFee = hostFeeBase * hostFeePercent / 100 \<and>
             platformFee =
               (if feeOnTop = 0 then amountInHostCurrency * platformFeePercent / 100
                else js_mul env feeOnTop fxrate)))"
proof -
  from processOrder_accepted [OF assms] obtain h where
    host: "getHostCollective env (o_collective order) = Some h"
    and created: "(tx, l') = createFromPayload env (processOrder_payload env order h) l"
    by blast
  note raw = order_feeOnTop_raw [of order] order_hostFeePercent_def [of order]
    order_platformFeePercent_def [of order]
  note fields = processOrder_payload_fields [of env order h, unfolded raw]
  have ids: "p_FromCollectiveId (processOrder_payload env order h) = o_FromCollectiveId order"
    "p_CollectiveId (processOrder_payload env order h) = o_CollectiveId order"
    by (simp_all add: processOrder_payload_def Let_def)
  have row: "createFromPayload env = ledger_createFromPayload \<Longrightarrow>
      t_amountInHostCurrency tx = t_amountInHostCurrency (p_transaction (processOrder_payload env order h)) \<and>
      t_hostFeeInHostCurrency tx = t_hostFeeInHostCurrency (p_transaction (processOrder_payload env order h)) \<and>
      t_platformFeeInHostCurrency tx = t_platformFeeInHostCurrency (p_transaction (processOrder_payload env order h)) \<and>
      t_amount tx = o_totalAmount order \<and>
      t_hostCurrencyFxRate tx = getFxRate env (o_currency order) (pm_currency (o_paymentMethod order)) \<and>
      t_FromCollectiveId tx = Some (o_FromCollectiveId order) \<and>
      t_CollectiveId tx = Some (o_CollectiveId order) \<and>
      l' = l @ paired_rows tx"
    using ledger_createFromPayload_row [of tx l' "processOrder_payload env order h" l] created
    by (simp only: fields(4,5) ids)
  show ?thesis
    apply (rule exI [of _ h])
    apply (intro conjI host created)
    unfolding Let_def
    apply (intro conjI impI)
    using fields(1,2,3) row
    by (simp_all add: proportional_fee_def)
qed

theorem processOrder_amounts_witness:
  "(\<exists>tx l'. processOrder ex_env (ex_order_data (Some \<lparr> od_hostFeePercent = Some 25, od_platformFeePercent = Some 50,
        od_platformFee = None, od_isFeesOnTop = None \<rparr>)) ex_ledger = (Inr tx, l') \<and>
      t_amount tx = 1000 \<and> t_amountInHostCurrency tx = 2000 \<and>
      t_hostFeeInHostCurrency tx = 500 \<and> t_platformFeeInHostCurrency tx = 1000 \<and>
      l' = ex_ledger @ paired_rows tx) \<and>
   (\<exists>tx l'. processOrder ex_env (ex_order_data None) ex_ledger = (Inr tx, l') \<and>
      t_amount tx = 1000 \<and> t_amountInHostCurrency tx = 2000 \<and>
      t_hostFeeInHostCurrency tx = 0 \<and> t_platformFeeInHostCurrency tx = 0 \<and>
      l' = ex_ledger @ paired_rows tx) \<and>
   (\<exists>tx l'. processOrder ex_env (ex_order_data (Some \<lparr> od_hostFeePercent = Some 25, od_platformFeePercent = Some 50,
        od_platformFee = Some 100, od_isFeesOnTop = None \<rparr>)) ex_ledger = (Inr tx, l') \<and>
      t_amount tx = 1000 \<and> t_amountInHostCurrency tx = 2000 \<and>
      t_hostFeeInHostCurrency tx = 450 \<and> t_platformFeeInHostCurrency tx = 200 \<and>
      l' = ex_ledger @ paired_rows tx) \<and>
   (\<exists>tx l'. processOrder ex_env (ex_order_data (Some \<lparr> od_hostFeePercent = Some 75, od_platformFeePercent = None,
        od_platformFee = None, od_isFeesOnTop = None \<rparr>)) ex_ledger = (Inr tx, l') \<and>
      t_amount tx = 1000 \<and> t_amountInHostCurrency tx = 2000 \<and>
      t_hostFeeInHostCurrency tx = 1500 \<and> t_platformFeeInHostCurrency tx = 0 \<and>
      l' = ex_ledger @ paired_rows tx)"
proof -
  have env: "createFromPayload ex_env = ledger_createFromPayload"
    "calcFee ex_env = proportional_fee"
    "js_mul ex_env = (\<lambda>a b. a * b)" "js_sub ex_env = (\<lambda>a b. a - b)"
    by (simp_all add: ex_env_def)
  have ord: "\<And>dt. o_data (ex_order_data dt) = dt"
    "\<And>dt. o_totalAmount (ex_order_data dt) = 1000"
    "\<And>dt. getFxRate ex_env (o_currency (ex_order_data dt))
        (pm_currency (o_paymentMethod (ex_order_data dt))) = 2"
    by (simp_all add: ex_order_data_def ex_order_def ex_env_def)
  obtain tx l' where run: "processOrder ex_env (ex_order_data (Some \<lparr> od_hostFeePercent = Some 25, od_platformFeePercent = Some 50,
        od_platformFee = None, od_isFeesOnTop = None \<rparr>)) ex_ledger = (Inr tx, l')"
    by (simp add: processOrder_def getBalance_def ledger_balance_def ledger_createFromPayload_def
        findByPk_def ex_order_data_def ex_defs Let_def)
  from processOrder_amounts [OF run]
  have "t_amount tx = 1000 \<and> t_amountInHostCurrency tx = 2000 \<and>
      t_hostFeeInHostCurrency tx = 500 \<and> t_platformFeeInHostCurrency tx = 1000 \<and>
      l' = ex_ledger @ paired_rows tx"
    by (auto simp: env ord Let_def proportional_fee_def)
  with run have first: "(\<exists>tx l'. processOrder ex_env (ex_order_data (Some \<lparr> od_hostFeePercent = Some 25, od_platformFeePercent = Some 50,
        od_platformFee = None, od_isFeesOnTop = None \<rparr>)) ex_ledger = (Inr tx, l') \<and>
      t_amount tx = 1000 \<and> t_amountInHostCurrency tx = 2000 \<and>
      t_hostFeeInHostCurrency tx = 500 \<and> t_platformFeeInHostCurrency tx = 1000 \<and>
      l' = ex_ledger @ paired_rows tx)"
    by blast
  obtain tx l' where run: "processOrder ex_env (ex_order_data None) ex_ledger = (Inr tx, l')"
    by (simp add: processOrder_def getBalance_def ledger_balance_def ledger_createFromPayload_def
        findByPk_def ex_order_data_def ex_defs Let_def)
  from processOrder_amounts [OF run]
  have "t_amount tx = 1000 \<and> t_amountInHostCurrency tx = 2000 \<and>
      t_hostFeeInHostCurrency tx = 0 \<and> t_platformFeeInHostCurrency tx = 0 \<and>
      l' = ex_ledger @ paired_rows tx"
    by (auto simp: env ord Let_def proportional_fee_def)
  with run have second: "(\<exists>tx l'. processOrder ex_env (ex_order_data None) ex_ledger = (Inr tx, l') \<and>
      t_amount tx = 1000 \<and> t_amountInHostCurrency tx = 2000 \<and>
      t_hostFeeInHostCurrency tx = 0 \<and> t_platformFeeInHostCurrency tx = 0 \<and>
      l' = ex_ledger @ paired_rows tx)"
    by blast
  obtain tx l' where run: "processOrder ex_env (ex_order_data (Some \<lparr> od_hostFeePercent = Some 25, od_platformFeePercent = Some 50,
        od_platformFee = Some 100, od_isFeesOnTop = None \<rparr>)) ex_ledger = (Inr tx, l')"
    by (simp add: processOrder_def getBalance_def ledger_balance_def ledger_createFromPayload_def
        findByPk_def ex_order_data_def ex_defs Let_def)
  from processOrder_amounts [OF run]
  have "t_amount tx = 1000 \<and> t_amountInHostCurrency tx = 2000 \<and>
      t_hostFeeInHostCurrency tx = 450 \<and> t_platformFeeInHostCurrency tx = 200 \<and>
      l' = ex_ledger @ paired_rows tx"
    by (auto simp: env ord Let_def proportional_fee_def)
  with run have third: "(\<exists>tx l'. processOrder ex_env (ex_order_data (Some \<lparr> od_hostFeePercent = Some 25, od_platformFeePercent = Some 50,
        od_platformFee = Some 100, od_isFeesOnTop = None \<rparr>)) ex_ledger = (Inr tx, l') \<and>
      t_amount tx = 1000 \<and> t_amountInHostCurrency tx = 2000 \<and>
      t_hostFeeInHostCurrency tx = 450 \<and> t_platformFeeInHostCurrency tx = 200 \<and>
      l' = ex_ledger @ paired_rows tx)"
    by blast
  obtain tx l' where run: "processOrder ex_env (ex_order_data (Some \<lparr> od_hostFeePercent = Some 75, od_platformFeePercent = None,
        od_platformFee = None, od_isFeesOnTop = None \<rparr>)) ex_ledger = (Inr tx, l')"
    by (simp add: processOrder_def getBalance_def ledger_balance_def ledger_createFromPayload_def
        findByPk_def ex_order_data_def ex_defs Let_def)
  from processOrder_amounts [OF run]
  have "t_amount tx = 1000 \<and> t_amountInHostCurrency tx = 2000 \<and>
      t_hostFeeInHostCurrency tx = 1500 \<and> t_platformFeeInHostCurrency tx = 0 \<and>
      l' = ex_ledger @ paired_rows tx"
    by (auto simp: env ord Let_def proportional_fee_def)
  with run have fourth: "(\<exists>tx l'. processOrder ex_env (ex_order_data (Some \<lparr> od_hostFeePercent = Some 75, od_platformFeePercent = None,
        od_platformFee = None, od_isFeesOnTop = None \<rparr>)) ex_ledger = (Inr tx, l') \<and>
      t_amount tx = 1000 \<and> t_amountInHostCurrency tx = 2000 \<and>
      t_hostFeeInHostCurrency tx = 1500 \<and> t_platformFeeInHostCurrency tx = 0 \<and>
      l' = ex_ledger @ paired_rows tx)"
    by blast
  from first second third fourth show ?thesis by (intro conjI)
qed

text \<open>
  Claim C2. An order whose payer and recipient have different fiscal hosts (or of which
  only one has a host) is rejected by \<open>processOrder\<close> with an error, and a transaction
  whose two collectives have different hosts is rejected by \<open>refundTransaction\<close> with an
  error; in both cases the ledger is the one the call started from.
\<close>

theorem cross_host_rejected:
  "(map_option c_id (getHostCollective env (o_fromCollective order)) \<noteq>
      map_option c_id (getHostCollective env (o_collective order)) \<longrightarrow>
      (\<exists>e. processOrder env order l = (Inl e, l))) \<and>
   (findByPk rows (t_FromCollectiveId tx) = Some a \<and>
    findByPk rows (t_CollectiveId tx) = Some b \<and>
    c_HostCollectiveId a \<noteq> c_HostCollectiveId b \<longrightarrow>
      (\<exists>e. refundTransaction env rows tx user l = (Inl e, l)))"
proof (intro conjI impI)
  assume "map_option c_id (getHostCollective env (o_fromCollective order)) \<noteq>
      map_option c_id (getHostCollective env (o_collective order))"
  then show "\<exists>e. processOrder env order l = (Inl e, l)"
    by (auto simp: processOrder_def split: option.splits)
next
  assume "findByPk rows (t_FromCollectiveId tx) = Some a \<and>
    findByPk rows (t_CollectiveId tx) = Some b \<and>
    c_HostCollectiveId a \<noteq> c_HostCollectiveId b"
  then show "\<exists>e. refundTransaction env rows tx user l = (Inl e, l)"
    by (cases "t_type tx") (auto simp: refundTransaction_def Let_def)
qed

theorem cross_host_rejected_witness:
  "map_option c_id (getHostCollective ex_env (o_fromCollective (ex_order ex_stranger None))) \<noteq>
      map_option c_id (getHostCollective ex_env (o_collective (ex_order ex_stranger None))) \<and>
   (\<exists>e. processOrder ex_env (ex_order ex_stranger None) ex_ledger = (Inl e, ex_ledger)) \<and>
   findByPk ex_rows (t_FromCollectiveId (ex_row 2 5 10)) = Some ex_payer \<and>
   findByPk ex_rows (t_CollectiveId (ex_row 2 5 10)) = Some ex_stranger \<and>
   c_HostCollectiveId ex_payer \<noteq> c_HostCollectiveId ex_stranger \<and>
   (\<exists>e. refundTransaction ex_env ex_rows (ex_row 2 5 10) 1 ex_ledger = (Inl e, ex_ledger))"
proof -
  have h1: "map_option c_id (getHostCollective ex_env (o_fromCollective (ex_order ex_stranger None))) \<noteq>
      map_option c_id (getHostCollective ex_env (o_collective (ex_order ex_stranger None)))"
    by (simp add: findByPk_def ex_defs)
  have h2: "findByPk ex_rows (t_FromCollectiveId (ex_row 2 5 10)) = Some ex_payer \<and>
    findByPk ex_rows (t_CollectiveId (ex_row 2 5 10)) = Some ex_stranger \<and>
    c_HostCollectiveId ex_payer \<noteq> c_HostCollectiveId ex_stranger"
    by (simp add: findByPk_def ex_defs)
  from h1 h2
    cross_host_rejected [of ex_env "ex_order ex_stranger None" ex_ledger ex_rows
      "ex_row 2 5 10" ex_payer ex_stranger 1]
  show ?thesis by blast
qed

text \<open>
  Claim C6. Whenever the balance that \<open>getBalance\<close> returns for the order's payment
  method is strictly below the order's total amount, \<open>processOrder\<close> rejects the order and
  leaves the ledger untouched. For an order that passes the checks before the balance
  check, that balance is the one of the paying collective, the rejection is the
  "Not enough funds" error, and otherwise the order proceeds to the creation of the
  transaction.
\<close>

theorem processOrder_balance_check:
  "(getBalance env l (o_paymentMethod order) = Inr balance \<and> balance < o_totalAmount order \<longrightarrow>
      (\<exists>e. processOrder env order l = (Inl e, l))) \<and>
   (c_isActive (o_fromCollective order) \<and>
    pm_CollectiveId (o_paymentMethod order) = Some (c_id (o_fromCollective order)) \<and>
    getHostCollective env (o_fromCollective order) = Some fromCollectiveHost \<and>
    getHostCollective env (o_collective order) = Some collectiveHost \<and>
    c_id fromCollectiveHost = c_id collectiveHost \<longrightarrow>
      getBalance env l (o_paymentMethod order) =
        Inr (Collective_getBalance env l (c_id (o_fromCollective order))) \<and>
      processOrder env order l =
        (if Collective_getBalance env l (c_id (o_fromCollective order)) < o_totalAmount order
         then (Inl (Error (not_enough_funds env
                      (Collective_getBalance env l (c_id (o_fromCollective order)))
                      (pm_currency (o_paymentMethod order)) ''execute this order''
                      (o_totalAmount order) (o_currency order))), l)
         else (Inr (fst (createFromPayload env (processOrder_payload env order collectiveHost) l)),
               snd (createFromPayload env (processOrder_payload env order collectiveHost) l))))"
proof (intro conjI impI)
  assume low: "getBalance env l (o_paymentMethod order) = Inr balance \<and> balance < o_totalAmount order"
  show "\<exists>e. processOrder env order l = (Inl e, l)"
  proof (cases "processOrder env order l")
    case (Pair result l')
    with low show ?thesis
      by (auto simp: processOrder_def split: option.splits if_splits prod.splits)
  qed
next
  assume guards: "c_isActive (o_fromCollective order) \<and>
    pm_CollectiveId (o_paymentMethod order) = Some (c_id (o_fromCollective order)) \<and>
    getHostCollective env (o_fromCollective order) = Some fromCollectiveHost \<and>
    getHostCollective env (o_collective order) = Some collectiveHost \<and>
    c_id fromCollectiveHost = c_id collectiveHost"
  then show "getBalance env l (o_paymentMethod order) =
        Inr (Collective_getBalance env l (c_id (o_fromCollective order)))"
    by (simp add: getBalance_def)
next
  assume guards: "c_isActive (o_fromCollective order) \<and>
    pm_CollectiveId (o_paymentMethod order) = Some (c_id (o_fromCollective order)) \<and>
    getHostCollective env (o_fromCollective order) = Some fromCollectiveHost \<and>
    getHostCollective env (o_collective order) = Some collectiveHost \<and>
    c_id fromCollectiveHost = c_id collectiveHost"
  then show "processOrder env order l =
        (if Collective_getBalance env l (c_id (o_fromCollective order)) < o_totalAmount order
         then (Inl (Error (not_enough_funds env
                      (Collective_getBalance env l (c_id (o_fromCollective order)))
                      (pm_currency (o_paymentMethod order)) ''execute this order''
                      (o_totalAmount order) (o_currency order))), l)
         else (Inr (fst (createFromPayload env (processOrder_payload env order collectiveHost) l)),
               snd (createFromPayload env (processOrder_payload env order collectiveHost) l)))"
    by (simp add: processOrder_def getBalance_def split: prod.splits)
qed

theorem processOrder_balance_check_witness:
  "getBalance ex_env [ex_row 1 2 500] (o_paymentMethod (ex_order ex_recipient None)) = Inr 500 \<and>
   500 < o_totalAmount (ex_order ex_recipient None) \<and>
   processOrder ex_env (ex_order ex_recipient None) [ex_row 1 2 500] =
     (Inl (Error ''Not enough funds available (USD left) to execute this order (EUR)''),
      [ex_row 1 2 500]) \<and>
   getBalance ex_env [ex_row 1 2 1000] (o_paymentMethod (ex_order ex_recipient None)) = Inr 1000 \<and>
   \<not> 1000 < o_totalAmount (ex_order ex_recipient None) \<and>
   (\<exists>tx l'. processOrder ex_env (ex_order ex_recipient None) [ex_row 1 2 1000] = (Inr tx, l'))"
proof -
  have guards: "c_isActive (o_fromCollective (ex_order ex_recipient None)) \<and>
    pm_CollectiveId (o_paymentMethod (ex_order ex_recipient None)) =
      Some (c_id (o_fromCollective (ex_order ex_recipient None))) \<and>
    getHostCollective ex_env (o_fromCollective (ex_order ex_recipient None)) = Some ex_host \<and>
    getHostCollective ex_env (o_collective (ex_order ex_recipient None)) = Some ex_host \<and>
    c_id ex_host = c_id ex_host"
    by (simp add: findByPk_def ex_defs)
  have low: "Collective_getBalance ex_env [ex_row 1 2 500] (c_id (o_fromCollective (ex_order ex_recipient None))) = 500"
    and enough: "Collective_getBalance ex_env [ex_row 1 2 1000] (c_id (o_fromCollective (ex_order ex_recipient None))) = 1000"
    and total: "o_totalAmount (ex_order ex_recipient None) = 1000"
    by (simp_all add: ledger_balance_def ex_defs)
  have msg: "not_enough_funds ex_env 500 (pm_currency (o_paymentMethod (ex_order ex_recipient None)))
      ''execute this order'' 1000 (o_currency (ex_order ex_recipient None)) =
      ''Not enough funds available (USD left) to execute this order (EUR)''"
    by (simp add: not_enough_funds_def ex_env_def ex_order_def)
  from guards low total msg
    processOrder_balance_check [of ex_env "[ex_row 1 2 500]" "ex_order ex_recipient None" 500
      ex_host ex_host]
  have a: "getBalance ex_env [ex_row 1 2 500] (o_paymentMethod (ex_order ex_recipient None)) = Inr 500 \<and>
   processOrder ex_env (ex_order ex_recipient None) [ex_row 1 2 500] =
     (Inl (Error ''Not enough funds available (USD left) to execute this order (EUR)''),
      [ex_row 1 2 500])"
    by simp
  from guards enough total
    processOrder_balance_check [of ex_env "[ex_row 1 2 1000]" "ex_order ex_recipient None" 1000
      ex_host ex_host]
  have b: "getBalance ex_env [ex_row 1 2 1000] (o_paymentMethod (ex_order ex_recipient None)) = Inr 1000 \<and>
   (\<exists>tx l'. processOrder ex_env (ex_order ex_recipient None) [ex_row 1 2 1000] = (Inr tx, l'))"
    by simp
  from a b total show ?thesis by simp
qed

text \<open>
  What \<open>refundTransaction\<close> checks before it accepts a refund: the two collectives of the
  transaction exist and share the same (non-null) host, the transaction's amount, with
  its sign, is at most the balance of the recipient, and the refund is the one the
  creation routine makes for a refunded processor fee of 0; with the creation routine
  of the spec the opposing entry carries a processor fee of exactly 0.
\<close>

lemma refund_accepted:
  assumes "refundTransaction env rows tx user l = (Inr refund, l')"
  shows "\<exists>fromCollective collective.
      [Some fromCollective, Some collective] =
        (if t_type tx = CREDIT
         then [findByPk rows (t_FromCollectiveId tx), findByPk rows (t_CollectiveId tx)]
         else [findByPk rows (t_CollectiveId tx), findByPk rows (t_FromCollectiveId tx)]) \<and>
      c_HostCollectiveId fromCollective = c_HostCollectiveId collective \<and>
      (\<exists>hostId. c_HostCollectiveId fromCollective = Some hostId \<and> 0 < hostId) \<and>
      t_amount tx \<le> Collective_getBalance env l (c_id collective) \<and>
      (refund, l') = createRefundTransaction env tx 0 user l \<and>
      (createRefundTransaction env = ledger_createRefundTransaction \<longrightarrow>
         t_paymentProcessorFeeInHostCurrency refund = 0 \<and>
         l' = l @ paired_rows refund \<and> refund = opposing_entry tx 0)"
  using assms
  by (cases "t_type tx")
     (auto simp: refundTransaction_def Let_def ledger_createRefundTransaction_def opposing_entry_def
       split: option.splits if_splits prod.splits)

text \<open>
  Claim C8 fails for a DEBIT row. \<open>refundTransaction\<close> takes a row of either type (it
  swaps the two collectives for a DEBIT), but it compares the balance of the recipient
  with the row's amount as stored, and the amount of a DEBIT row is negative. So a
  DEBIT row whose two collectives share a host is refunded whenever the recipient's
  balance is not negative, whether or not the balance covers the amount to give back.
  On the ledger of the example the recipient holds 0: the refund of the CREDIT row
  of a movement of 10 is refused for lack of funds, the refund of its DEBIT row is
  accepted, and the recipient ends at - 10.
\<close>

theorem refund_debit_row_not_covered:
  assumes "t_type tx = DEBIT"
    and "findByPk rows (t_CollectiveId tx) = Some fromCollective"
    and "findByPk rows (t_FromCollectiveId tx) = Some collective"
    and "c_HostCollectiveId fromCollective = Some hostId" and "0 < hostId"
    and "c_HostCollectiveId collective = Some hostId"
    and "t_amount tx < 0"
    and "0 \<le> Collective_getBalance env l (c_id collective)"
  shows "\<exists>refund l'.
      refundTransaction env rows tx user l = (Inr refund, l') \<and>
      (refund, l') = createRefundTransaction env tx 0 user l"
  using assms
  by (cases "createRefundTransaction env tx 0 user l")
     (simp add: refundTransaction_def Let_def)

theorem refund_debit_row_not_covered_witness:
  "ledger_balance (ex_ledger @ paired_rows (ex_row 2 3 10) @ paired_rows (ex_row 3 1 10)) 3 = 0 \<and>
   t_type (mirror_row (ex_row 2 3 10)) = DEBIT \<and>
   t_amount (mirror_row (ex_row 2 3 10)) = - 10 \<and>
   (\<exists>e. refundTransaction ex_env ex_rows (ex_row 2 3 10) 1
          (ex_ledger @ paired_rows (ex_row 2 3 10) @ paired_rows (ex_row 3 1 10)) =
        (Inl (Error e), ex_ledger @ paired_rows (ex_row 2 3 10) @ paired_rows (ex_row 3 1 10))) \<and>
   (\<exists>refund l'.
      refundTransaction ex_env ex_rows (mirror_row (ex_row 2 3 10)) 1
          (ex_ledger @ paired_rows (ex_row 2 3 10) @ paired_rows (ex_row 3 1 10)) =
        (Inr refund, l') \<and>
      t_type refund = CREDIT \<and> t_amount refund = 10 \<and>
      t_paymentProcessorFeeInHostCurrency refund = 0 \<and>
      ledger_balance l' 3 = - 10)"
proof -
  let ?l = "ex_ledger @ paired_rows (ex_row 2 3 10) @ paired_rows (ex_row 3 1 10)"
  let ?tx = "mirror_row (ex_row 2 3 10)"
  have balance: "ledger_balance ?l 3 = 0"
    by (simp add: ledger_balance_def paired_rows_def mirror_row_def negate_amounts_def ex_defs)
  have amount: "t_amount ?tx = - 10"
    by (simp add: mirror_row_def negate_amounts_def ex_row_def)
  have credit: "\<exists>e. refundTransaction ex_env ex_rows (ex_row 2 3 10) 1 ?l = (Inl (Error e), ?l)"
    by (simp add: refundTransaction_def findByPk_def ledger_balance_def paired_rows_def
        mirror_row_def negate_amounts_def Let_def ex_defs)
  have pre: "t_type ?tx = DEBIT"
    "findByPk ex_rows (t_CollectiveId ?tx) = Some ex_payer"
    "findByPk ex_rows (t_FromCollectiveId ?tx) = Some ex_recipient"
    "c_HostCollectiveId ex_payer = Some 1" "(0::nat) < 1"
    "c_HostCollectiveId ex_recipient = Some 1"
    "t_amount ?tx < 0"
    "0 \<le> Collective_getBalance ex_env ?l (c_id ex_recipient)"
    by (simp_all add: findByPk_def ledger_balance_def paired_rows_def mirror_row_def
        negate_amounts_def flip_type_def ex_defs)
  from refund_debit_row_not_covered [OF pre, of 1]
  obtain refund l' where run: "refundTransaction ex_env ex_rows ?tx 1 ?l = (Inr refund, l')"
    and made: "(refund, l') = createRefundTransaction ex_env ?tx 0 1 ?l"
    by blast
  from made have "t_type refund = CREDIT \<and> t_amount refund = 10 \<and>
      t_paymentProcessorFeeInHostCurrency refund = 0 \<and> ledger_balance l' 3 = - 10"
    by (simp add: ledger_createRefundTransaction_def opposing_entry_def ledger_balance_def
        paired_rows_def mirror_row_def negate_amounts_def flip_type_def Let_def ex_defs)
  with run have debit: "\<exists>refund l'. refundTransaction ex_env ex_rows ?tx 1 ?l = (Inr refund, l') \<and>
      t_type refund = CREDIT \<and> t_amount refund = 10 \<and>
      t_paymentProcessorFeeInHostCurrency refund = 0 \<and> ledger_balance l' 3 = - 10"
    by blast
  from balance pre(1) amount credit debit show ?thesis by (intro conjI)
qed

lemma ledger_balance_append:
  "ledger_balance (l1 @ l2) cid = ledger_balance l1 cid + ledger_balance l2 cid"
  by (simp add: ledger_balance_def)

lemma ledger_balance_refund_pair:
  "ledger_balance (paired_rows tx) cid + ledger_balance (paired_rows (opposing_entry tx fee)) cid = 0"
  by (simp add: ledger_balance_def paired_rows_def opposing_entry_def mirror_row_def negate_amounts_def)

lemma mirror_row_twice: "mirror_row (mirror_row tx) = tx"
  by (cases "t_type tx") (simp_all add: mirror_row_def negate_amounts_def flip_type_def)

lemma ledger_balance_mirror_pair:
  "ledger_balance (paired_rows (mirror_row tx)) cid = ledger_balance (paired_rows tx) cid"
  by (simp add: ledger_balance_def paired_rows_def mirror_row_twice)

text \<open>
  Claim C5. On the ledger modelled from the spec, a same-host refund that
  \<open>refundTransaction\<close> accepts, asked for either row of the original transaction's pair,
  brings the balance of the recipient (of every collective, in fact) back to what it is
  without the original pair: the refund exactly reverses the original transaction's
  effect on the balance.
\<close>

theorem refund_restores_balance:
  assumes "tx = original \<or> tx = mirror_row original"
    and "refundTransaction (ledger_env env) rows tx user (la @ paired_rows original @ lb) = (Inr refund, l')"
  shows "ledger_balance l' cid = ledger_balance (la @ lb) cid"
proof -
  have "createRefundTransaction (ledger_env env) = ledger_createRefundTransaction"
    by (simp add: ledger_env_def)
  with assms(2) have "l' = (la @ paired_rows original @ lb) @ paired_rows (opposing_entry tx 0)"
    by (cases "t_type tx")
       (auto simp: refundTransaction_def Let_def ledger_createRefundTransaction_def
         split: option.splits if_splits)
  moreover have "ledger_balance (paired_rows original) cid = ledger_balance (paired_rows tx) cid"
    using assms(1) by (auto simp: ledger_balance_mirror_pair)
  ultimately show ?thesis
    using ledger_balance_refund_pair [of tx cid 0]
    by (simp add: ledger_balance_append)
qed

theorem refund_restores_balance_witness:
  "(\<exists>refund l'.
     refundTransaction (ledger_env ex_env) ex_rows (ex_row 2 3 10) 1
       (ex_ledger @ paired_rows (ex_row 2 3 10) @ [ex_row 1 3 40]) = (Inr refund, l') \<and>
     ledger_balance (ex_ledger @ [ex_row 1 3 40]) 3 = 40 \<and>
     ledger_balance (ex_ledger @ paired_rows (ex_row 2 3 10) @ [ex_row 1 3 40]) 3 = 50 \<and>
     ledger_balance l' 3 = 40) \<and>
   (\<exists>refund l'.
     refundTransaction (ledger_env ex_env) ex_rows (mirror_row (ex_row 2 3 10)) 1
       (ex_ledger @ paired_rows (ex_row 2 3 10) @ [ex_row 1 3 40]) = (Inr refund, l') \<and>
     ledger_balance l' 3 = 40)"
proof -
  obtain refund l' where run:
    "refundTransaction (ledger_env ex_env) ex_rows (ex_row 2 3 10) 1
       (ex_ledger @ paired_rows (ex_row 2 3 10) @ [ex_row 1 3 40]) = (Inr refund, l')"
    by (simp add: refundTransaction_def findByPk_def ledger_balance_def paired_rows_def
        mirror_row_def negate_amounts_def ledger_createRefundTransaction_def ledger_env_def
        Let_def ex_defs)
  obtain refund' l'' where run':
    "refundTransaction (ledger_env ex_env) ex_rows (mirror_row (ex_row 2 3 10)) 1
       (ex_ledger @ paired_rows (ex_row 2 3 10) @ [ex_row 1 3 40]) = (Inr refund', l'')"
    by (simp add: refundTransaction_def findByPk_def ledger_balance_def paired_rows_def
        mirror_row_def negate_amounts_def flip_type_def ledger_createRefundTransaction_def
        ledger_env_def Let_def ex_defs)
  have before: "ledger_balance (ex_ledger @ [ex_row 1 3 40]) 3 = 40"
    and between: "ledger_balance (ex_ledger @ paired_rows (ex_row 2 3 10) @ [ex_row 1 3 40]) 3 = 50"
    by (simp_all add: ledger_balance_def paired_rows_def mirror_row_def negate_amounts_def ex_defs)
  from refund_restores_balance [OF _ run, of 3] before
  have after: "ledger_balance l' 3 = 40" by simp
  from refund_restores_balance [OF _ run', of 3] before
  have after': "ledger_balance l'' 3 = 40" by simp
  have first: "\<exists>refund l'.
     refundTransaction (ledger_env ex_env) ex_rows (ex_row 2 3 10) 1
       (ex_ledger @ paired_rows (ex_row 2 3 10) @ [ex_row 1 3 40]) = (Inr refund, l') \<and>
     ledger_balance (ex_ledger @ [ex_row 1 3 40]) 3 = 40 \<and>
     ledger_balance (ex_ledger @ paired_rows (ex_row 2 3 10) @ [ex_row 1 3 40]) 3 = 50 \<and>
     ledger_balance l' 3 = 40"
    using run before between after by blast
  have second: "\<exists>refund l'.
     refundTransaction (ledger_env ex_env) ex_rows (mirror_row (ex_row 2 3 10)) 1
       (ex_ledger @ paired_rows (ex_row 2 3 10) @ [ex_row 1 3 40]) = (Inr refund, l') \<and>
     ledger_balance l' 3 = 40"
    using run' after' by blast
  from first second show ?thesis by (rule conjI)
qed

section \<open>Properties of the account mutations\<close>

lemmas acc_defs = ex_db_def ex_lib_def ex_request_def ex_freeze_def set_frozen_def

subsection \<open>Fee structure\<close>

lemma updateAccountFees_ids:
  "map c_id (updateAccountFees h f a rows) = map c_id rows"
  by (induction rows) (auto simp: updateAccountFees_def)

lemma fold_updateAccountFees_ids:
  "map c_id (fold (updateAccountFees h f) cs rows) = map c_id rows"
  by (induction cs arbitrary: rows) (auto simp: updateAccountFees_ids)

lemma data_useCustomHostFee_spread:
  "data_useCustomHostFee (r \<lparr> c_hostFeePercent := h, c_data := Some (spread_useCustomHostFee dt f) \<rparr>) = Some f"
  by (simp add: data_useCustomHostFee_def spread_useCustomHostFee_def split: option.splits)

lemma updateAccountFees_row:
  assumes "r \<in> set (updateAccountFees h f a rows)"
  shows "(c_id r = c_id a \<and> c_hostFeePercent r = h \<and> data_useCustomHostFee r = Some f) \<or>
         (c_id r \<noteq> c_id a \<and> r \<in> set rows)"
  using assms data_useCustomHostFee_spread
  by (auto simp: updateAccountFees_def)

lemma fold_updateAccountFees_rows:
  assumes "\<forall>r\<in>set rows. c_id r \<in> S \<longrightarrow> c_hostFeePercent r = h \<and> data_useCustomHostFee r = Some f"
  shows "\<forall>r\<in>set (fold (updateAccountFees h f) cs rows).
           c_id r \<in> S \<union> c_id ` set cs \<longrightarrow> c_hostFeePercent r = h \<and> data_useCustomHostFee r = Some f"
  using assms
proof (induction cs arbitrary: rows S)
  case Nil
  then show ?case by simp
next
  case (Cons c cs)
  have step: "\<forall>r\<in>set (updateAccountFees h f c rows).
      c_id r \<in> insert (c_id c) S \<longrightarrow> c_hostFeePercent r = h \<and> data_useCustomHostFee r = Some f"
    using Cons.prems updateAccountFees_row [of _ h f c rows] by blast
  from Cons.IH [OF step] show ?case by simp
qed

lemma fee_rows_after:
  "\<forall>r\<in>set (fold (updateAccountFees h f) cs (updateAccountFees h f a rows)).
     c_id r \<in> c_id ` set (a # cs) \<longrightarrow> c_hostFeePercent r = h \<and> data_useCustomHostFee r = Some f"
proof -
  have "\<forall>r\<in>set (updateAccountFees h f a rows).
      c_id r \<in> {c_id a} \<longrightarrow> c_hostFeePercent r = h \<and> data_useCustomHostFee r = Some f"
    using updateAccountFees_row [of _ h f a rows] by blast
  from fold_updateAccountFees_rows [OF this, of cs] show ?thesis by simp
qed

lemma with_fees_values:
  "c_hostFeePercent (with_fees h f a) = h" "data_useCustomHostFee (with_fees h f a) = Some f"
  "c_id (with_fees h f a) = c_id a"
  by (simp_all add: with_fees_def data_useCustomHostFee_def spread_useCustomHostFee_def
      split: option.splits)

text \<open>What a successful call of the mutation did, in one place.\<close>

lemma editAccountFeeStructure_success:
  assumes "editAccountFeeStructure lib args req d = (Inr account', d')"
  shows "\<exists>account h ru.
      fetchAccountWithReference lib d (fs_account args) True = Inr (Some account) \<and>
      remoteUser req = Some ru \<and>
      applied_hostFeePercent args (findByPk (Collectives d) (c_HostCollectiveId account)) = Inr h \<and>
      account' = with_fees h (fs_isCustomFee args) account \<and>
      Collectives d' =
        fold (updateAccountFees h (fs_isCustomFee args))
          (getChildren lib (updateAccountFees h (fs_isCustomFee args) account (Collectives d)) account)
          (updateAccountFees h (fs_isCustomFee args) account (Collectives d)) \<and>
      Activities d' = Activities d @
        [\<lparr> a_type = COLLECTIVE_EDITED, a_UserId = ru_id ru, a_UserTokenId = userToken_id req,
           a_CollectiveId = c_id account, a_FromCollectiveId = c_id account,
           a_HostCollectiveId = c_HostCollectiveId account,
           a_data = FeeStructureData (c_hostFeePercent account) (data_useCustomHostFee account)
                      (fs_hostFeePercent args) (fs_isCustomFee args) \<rparr>] \<and>
      Users d' = Users d \<and> UserTwoFactorMethods d' = UserTwoFactorMethods d"
  using assms unfolding editAccountFeeStructure_def Let_def
  by (simp split: option.splits if_splits sum.splits) auto

lemma editAccountFeeStructure_failure:
  assumes "editAccountFeeStructure lib args req d = (Inl e, d')"
  shows "d' = d"
  using assms unfolding editAccountFeeStructure_def Let_def
  by (simp split: option.splits if_splits sum.splits)

lemma editAccountFeeStructure_ids:
  assumes "editAccountFeeStructure lib args req d = (Inr account', d')"
  shows "map c_id (Collectives d') = map c_id (Collectives d)"
  using editAccountFeeStructure_success [OF assms]
  by (auto simp: fold_updateAccountFees_ids updateAccountFees_ids)

text \<open>
  Claim C4. When \<open>editAccountFeeStructure\<close> succeeds, every row of the account and of
  each of its children (as \<open>getChildren\<close> returns them inside the transaction) carries
  the host fee percent and the \<open>useCustomHostFee\<close> flag of the returned parent account;
  no row is added or removed. The mutation is one transaction of the database: the
  parent and all children change together, and a call that fails changes nothing.
\<close>

theorem fee_structure_cascades:
  "(editAccountFeeStructure lib args req d = (Inr account', d') \<longrightarrow>
     (\<exists>account.
      fetchAccountWithReference lib d (fs_account args) True = Inr (Some account) \<and>
      c_id account' = c_id account \<and>
      data_useCustomHostFee account' = Some (fs_isCustomFee args) \<and>
      map c_id (Collectives d') = map c_id (Collectives d) \<and>
      (\<forall>child \<in> set (account #
            getChildren lib
              (updateAccountFees (c_hostFeePercent account') (fs_isCustomFee args) account (Collectives d))
              account).
         \<forall>r \<in> set (Collectives d').
           c_id r = c_id child \<longrightarrow>
             c_hostFeePercent r = c_hostFeePercent account' \<and>
             data_useCustomHostFee r = data_useCustomHostFee account'))) \<and>
   (editAccountFeeStructure lib args req d = (Inl e, dfail) \<longrightarrow> dfail = d)"
proof (intro conjI impI)
  assume ok: "editAccountFeeStructure lib args req d = (Inr account', d')"
  show "\<exists>account.
      fetchAccountWithReference lib d (fs_account args) True = Inr (Some account) \<and>
      c_id account' = c_id account \<and>
      data_useCustomHostFee account' = Some (fs_isCustomFee args) \<and>
      map c_id (Collectives d') = map c_id (Collectives d) \<and>
      (\<forall>child \<in> set (account #
            getChildren lib
              (updateAccountFees (c_hostFeePercent account') (fs_isCustomFee args) account (Collectives d))
              account).
         \<forall>r \<in> set (Collectives d').
           c_id r = c_id child \<longrightarrow>
             c_hostFeePercent r = c_hostFeePercent account' \<and>
             data_useCustomHostFee r = data_useCustomHostFee account')"
  proof -
    from editAccountFeeStructure_success [OF ok] obtain account h where
      acc: "fetchAccountWithReference lib d (fs_account args) True = Inr (Some account)"
      and acc': "account' = with_fees h (fs_isCustomFee args) account"
      and rows: "Collectives d' =
          fold (updateAccountFees h (fs_isCustomFee args))
            (getChildren lib (updateAccountFees h (fs_isCustomFee args) account (Collectives d)) account)
            (updateAccountFees h (fs_isCustomFee args) account (Collectives d))"
      by blast
    have h: "c_hostFeePercent account' = h"
      and f: "data_useCustomHostFee account' = Some (fs_isCustomFee args)"
      and i: "c_id account' = c_id account"
      using acc' by (simp_all add: with_fees_values)
    have ids: "map c_id (Collectives d') = map c_id (Collectives d)"
      using rows by (simp add: fold_updateAccountFees_ids updateAccountFees_ids)
    have cascade: "\<forall>child \<in> set (account #
              getChildren lib (updateAccountFees h (fs_isCustomFee args) account (Collectives d)) account).
           \<forall>r \<in> set (Collectives d').
             c_id r = c_id child \<longrightarrow>
               c_hostFeePercent r = h \<and> data_useCustomHostFee r = Some (fs_isCustomFee args)"
    proof (intro ballI impI)
      fix child r
      assume c: "child \<in> set (account #
              getChildren lib (updateAccountFees h (fs_isCustomFee args) account (Collectives d)) account)"
        and r: "r \<in> set (Collectives d')" and eq: "c_id r = c_id child"
      from c eq have "c_id r \<in> c_id ` set (account #
              getChildren lib (updateAccountFees h (fs_isCustomFee args) account (Collectives d)) account)"
        by (rule_tac x = child in image_eqI)
      moreover from r rows have "r \<in> set (fold (updateAccountFees h (fs_isCustomFee args))
            (getChildren lib (updateAccountFees h (fs_isCustomFee args) account (Collectives d)) account)
            (updateAccountFees h (fs_isCustomFee args) account (Collectives d)))"
        by simp
      ultimately show "c_hostFeePercent r = h \<and> data_useCustomHostFee r = Some (fs_isCustomFee args)"
        using fee_rows_after [of h "fs_isCustomFee args"
          "getChildren lib (updateAccountFees h (fs_isCustomFee args) account (Collectives d)) account"
          account "Collectives d"]
        by blast
    qed
    have "\<forall>child \<in> set (account #
              getChildren lib
                (updateAccountFees (c_hostFeePercent account') (fs_isCustomFee args) account (Collectives d))
                account).
           \<forall>r \<in> set (Collectives d').
             c_id r = c_id child \<longrightarrow>
               c_hostFeePercent r = c_hostFeePercent account' \<and>
               data_useCustomHostFee r = data_useCustomHostFee account'"
      unfolding h f by (rule cascade)
    with acc i f ids show ?thesis by blast
  qed
next
  assume "editAccountFeeStructure lib args req d = (Inl e, dfail)"
  then show "dfail = d" by (rule editAccountFeeStructure_failure)
qed

theorem fee_structure_cascades_witness:
  "(\<exists>account' d'.
     editAccountFeeStructure ex_lib \<lparr> fs_account = 3, fs_hostFeePercent = 3, fs_isCustomFee = True \<rparr>
       (ex_request 9 [1]) ex_db = (Inr account', d') \<and>
     c_hostFeePercent account' = Some 3 \<and>
     ex_event \<in> set (getChildren ex_lib
        (updateAccountFees (Some 3) True ex_recipient (Collectives ex_db)) ex_recipient) \<and>
     (\<exists>r. r \<in> set (Collectives d') \<and> c_id r = c_id ex_event \<and>
          c_hostFeePercent r = Some 3 \<and> data_useCustomHostFee r = Some True)) \<and>
   (\<exists>e. editAccountFeeStructure ex_lib
          \<lparr> fs_account = 3, fs_hostFeePercent = 3, fs_isCustomFee = True \<rparr>
          (ex_request 9 [4]) ex_db = (Inl e, ex_db))"
proof -
  obtain account' d' where run:
    "editAccountFeeStructure ex_lib \<lparr> fs_account = 3, fs_hostFeePercent = 3, fs_isCustomFee = True \<rparr>
       (ex_request 9 [1]) ex_db = (Inr account', d')"
    and fee: "c_hostFeePercent account' = Some 3"
    by (simp add: editAccountFeeStructure_def findByPk_def
        falsy_id_def applied_hostFeePercent_def with_fees_def Let_def ex_defs acc_defs)
  have child: "ex_event \<in> set (getChildren ex_lib
        (updateAccountFees (Some 3) True ex_recipient (Collectives ex_db)) ex_recipient)"
    by (simp add: updateAccountFees_def ex_defs acc_defs)
  have fetched: "fetchAccountWithReference ex_lib ex_db 3 True = Inr (Some ex_recipient)"
    by (simp add: findByPk_def ex_defs acc_defs)
  from fee_structure_cascades [THEN conjunct1, THEN mp, OF run] fetched fee child
  have ids: "map c_id (Collectives d') = map c_id (Collectives ex_db)"
    and all: "\<forall>r \<in> set (Collectives d'). c_id r = c_id ex_event \<longrightarrow>
             c_hostFeePercent r = Some 3 \<and> data_useCustomHostFee r = Some True"
    by auto
  have "c_id ex_event \<in> set (map c_id (Collectives ex_db))"
    by (simp add: ex_defs acc_defs)
  with arg_cong [OF ids, of set] have "c_id ex_event \<in> c_id ` set (Collectives d')"
    by simp
  then obtain r where "r \<in> set (Collectives d')" "c_id r = c_id ex_event"
    by (auto simp: image_iff)
  with all run fee child have first: "\<exists>account' d'.
     editAccountFeeStructure ex_lib \<lparr> fs_account = 3, fs_hostFeePercent = 3, fs_isCustomFee = True \<rparr>
       (ex_request 9 [1]) ex_db = (Inr account', d') \<and>
     c_hostFeePercent account' = Some 3 \<and>
     ex_event \<in> set (getChildren ex_lib
        (updateAccountFees (Some 3) True ex_recipient (Collectives ex_db)) ex_recipient) \<and>
     (\<exists>r. r \<in> set (Collectives d') \<and> c_id r = c_id ex_event \<and>
          c_hostFeePercent r = Some 3 \<and> data_useCustomHostFee r = Some True)"
    by blast
  obtain e dfail where failing:
    "editAccountFeeStructure ex_lib \<lparr> fs_account = 3, fs_hostFeePercent = 3, fs_isCustomFee = True \<rparr>
       (ex_request 9 [4]) ex_db = (Inl e, dfail)"
    by (simp add: editAccountFeeStructure_def findByPk_def falsy_id_def ex_defs acc_defs)
  from fee_structure_cascades [THEN conjunct2, THEN mp, OF failing] failing
  have second: "\<exists>e. editAccountFeeStructure ex_lib
          \<lparr> fs_account = 3, fs_hostFeePercent = 3, fs_isCustomFee = True \<rparr>
          (ex_request 9 [4]) ex_db = (Inl e, ex_db)"
    by blast
  from first second show ?thesis by (rule conjI)
qed

text \<open>
  Claim C10. In a successful \<open>editAccountFeeStructure\<close>, the submitted \<open>hostFeePercent\<close>
  is applied only when \<open>isCustomFee\<close> is true; otherwise the host's own
  \<open>hostFeePercent\<close> is applied. The applied value is the one on the account's row and on
  every child's row, while the Activity written records the submitted \<open>hostFeePercent\<close>
  (and the flag) as the new values, next to the previous ones.
\<close>

theorem fee_structure_custom_fee:
  assumes "editAccountFeeStructure lib args req d = (Inr account', d')"
  shows "\<exists>account.
      fetchAccountWithReference lib d (fs_account args) True = Inr (Some account) \<and>
      (if fs_isCustomFee args
       then c_hostFeePercent account' = Some (fs_hostFeePercent args)
       else (\<exists>host. findByPk (Collectives d) (c_HostCollectiveId account) = Some host \<and>
                    c_hostFeePercent account' = c_hostFeePercent host)) \<and>
      (\<forall>child \<in> set (account #
            getChildren lib
              (updateAccountFees (c_hostFeePercent account') (fs_isCustomFee args) account (Collectives d))
              account).
         \<forall>r \<in> set (Collectives d').
           c_id r = c_id child \<longrightarrow> c_hostFeePercent r = c_hostFeePercent account') \<and>
      (\<exists>act. Activities d' = Activities d @ [act] \<and>
             a_data act =
               FeeStructureData (c_hostFeePercent account) (data_useCustomHostFee account)
                 (fs_hostFeePercent args) (fs_isCustomFee args))"
proof -
  from editAccountFeeStructure_success [OF assms] obtain account h and ru :: remote_user where
    acc: "fetchAccountWithReference lib d (fs_account args) True = Inr (Some account)"
    and app: "applied_hostFeePercent args (findByPk (Collectives d) (c_HostCollectiveId account)) = Inr h"
    and acc': "account' = with_fees h (fs_isCustomFee args) account"
    and rows: "Collectives d' =
        fold (updateAccountFees h (fs_isCustomFee args))
          (getChildren lib (updateAccountFees h (fs_isCustomFee args) account (Collectives d)) account)
          (updateAccountFees h (fs_isCustomFee args) account (Collectives d))"
    and acts: "Activities d' = Activities d @
        [\<lparr> a_type = COLLECTIVE_EDITED, a_UserId = ru_id ru, a_UserTokenId = userToken_id req,
           a_CollectiveId = c_id account, a_FromCollectiveId = c_id account,
           a_HostCollectiveId = c_HostCollectiveId account,
           a_data = FeeStructureData (c_hostFeePercent account) (data_useCustomHostFee account)
                      (fs_hostFeePercent args) (fs_isCustomFee args) \<rparr>]"
    by blast
  have h: "c_hostFeePercent account' = h"
    using acc' by (simp add: with_fees_values)
  have percent: "if fs_isCustomFee args
       then h = Some (fs_hostFeePercent args)
       else (\<exists>host. findByPk (Collectives d) (c_HostCollectiveId account) = Some host \<and>
                    h = c_hostFeePercent host)"
    using app by (auto simp: applied_hostFeePercent_def split: if_splits option.splits)
  have cascade: "\<forall>child \<in> set (account #
            getChildren lib (updateAccountFees h (fs_isCustomFee args) account (Collectives d)) account).
         \<forall>r \<in> set (Collectives d'). c_id r = c_id child \<longrightarrow> c_hostFeePercent r = h"
  proof (intro ballI impI)
    fix child r
    assume c: "child \<in> set (account #
            getChildren lib (updateAccountFees h (fs_isCustomFee args) account (Collectives d)) account)"
      and r: "r \<in> set (Collectives d')" and eq: "c_id r = c_id child"
    from c eq have "c_id r \<in> c_id ` set (account #
            getChildren lib (updateAccountFees h (fs_isCustomFee args) account (Collectives d)) account)"
      by (rule_tac x = child in image_eqI)
    moreover from r rows have "r \<in> set (fold (updateAccountFees h (fs_isCustomFee args))
          (getChildren lib (updateAccountFees h (fs_isCustomFee args) account (Collectives d)) account)
          (updateAccountFees h (fs_isCustomFee args) account (Collectives d)))"
      by simp
    ultimately show "c_hostFeePercent r = h"
      using fee_rows_after [of h "fs_isCustomFee args"
        "getChildren lib (updateAccountFees h (fs_isCustomFee args) account (Collectives d)) account"
        account "Collectives d"]
      by blast
  qed
  have "(if fs_isCustomFee args
       then c_hostFeePercent account' = Some (fs_hostFeePercent args)
       else (\<exists>host. findByPk (Collectives d) (c_HostCollectiveId account) = Some host \<and>
                    c_hostFeePercent account' = c_hostFeePercent host)) \<and>
      (\<forall>child \<in> set (account #
            getChildren lib
              (updateAccountFees (c_hostFeePercent account') (fs_isCustomFee args) account (Collectives d))
              account).
         \<forall>r \<in> set (Collectives d').
           c_id r = c_id child \<longrightarrow> c_hostFeePercent r = c_hostFeePercent account')"
    unfolding h using percent cascade by (rule conjI)
  moreover have "\<exists>act. Activities d' = Activities d @ [act] \<and>
             a_data act =
               FeeStructureData (c_hostFeePercent account) (data_useCustomHostFee account)
                 (fs_hostFeePercent args) (fs_isCustomFee args)"
    using acts by simp
  ultimately show ?thesis using acc by blast
qed

theorem fee_structure_custom_fee_witness:
  "\<exists>account' d'.
     editAccountFeeStructure ex_lib \<lparr> fs_account = 3, fs_hostFeePercent = 3, fs_isCustomFee = False \<rparr>
       (ex_request 9 [1]) ex_db = (Inr account', d') \<and>
     c_hostFeePercent ex_recipient = Some 7 \<and>
     c_hostFeePercent ex_host = Some 10 \<and>
     c_hostFeePercent account' = Some 10 \<and>
     (\<exists>r. r \<in> set (Collectives d') \<and> c_id r = c_id ex_event \<and> c_hostFeePercent r = Some 10) \<and>
     (\<exists>act. Activities d' = [act] \<and> a_data act = FeeStructureData (Some 7) None 3 False)"
proof -
  obtain account' d' where run:
    "editAccountFeeStructure ex_lib \<lparr> fs_account = 3, fs_hostFeePercent = 3, fs_isCustomFee = False \<rparr>
       (ex_request 9 [1]) ex_db = (Inr account', d')"
    by (simp add: editAccountFeeStructure_def findByPk_def
        falsy_id_def applied_hostFeePercent_def with_fees_def Let_def ex_defs acc_defs)
  have fetched: "fetchAccountWithReference ex_lib ex_db 3 True = Inr (Some ex_recipient)"
    and hosted: "findByPk (Collectives ex_db) (c_HostCollectiveId ex_recipient) = Some ex_host"
    and before: "c_hostFeePercent ex_recipient = Some 7" "data_useCustomHostFee ex_recipient = None"
    and hostfee: "c_hostFeePercent ex_host = Some 10"
    and none: "Activities ex_db = []"
    by (simp_all add: findByPk_def data_useCustomHostFee_def
        ex_defs acc_defs)
  from fee_structure_custom_fee [OF run] fetched hosted hostfee
  have fee: "c_hostFeePercent account' = Some 10"
    and all: "\<forall>child \<in> set (ex_recipient #
            getChildren ex_lib (updateAccountFees (c_hostFeePercent account') False ex_recipient
              (Collectives ex_db)) ex_recipient).
         \<forall>r \<in> set (Collectives d'). c_id r = c_id child \<longrightarrow> c_hostFeePercent r = c_hostFeePercent account'"
    and act: "\<exists>act. Activities d' = Activities ex_db @ [act] \<and>
             a_data act = FeeStructureData (c_hostFeePercent ex_recipient)
               (data_useCustomHostFee ex_recipient) 3 False"
    by auto
  have child: "ex_event \<in> set (getChildren ex_lib
        (updateAccountFees (Some 10) False ex_recipient (Collectives ex_db)) ex_recipient)"
    by (simp add: updateAccountFees_def ex_defs acc_defs)
  from editAccountFeeStructure_ids [OF run]
  have ids: "map c_id (Collectives d') = map c_id (Collectives ex_db)" .
  have "c_id ex_event \<in> c_id ` set (Collectives ex_db)"
    by (simp add: ex_defs acc_defs)
  with arg_cong [OF ids, of set] have "c_id ex_event \<in> c_id ` set (Collectives d')"
    by simp
  then obtain r where r: "r \<in> set (Collectives d')" "c_id r = c_id ex_event"
    by (auto simp: image_iff)
  with all child fee have "c_hostFeePercent r = Some 10"
    by auto
  with r run fee act before hostfee none show ?thesis
    by auto
qed

subsection \<open>Freeze status\<close>

text \<open>
  Claim C7, amended. \<open>editAccountFreezeStatus\<close> never freezes or unfreezes an account
  whose type is not COLLECTIVE or FUND: the call ends in an error and the database is
  unchanged. When the caller is authorized (the scope check passes, the account has a
  host and the remote user is an admin of that host), the error is the validation
  error that sends the caller to the parent account, and for a collective or a fund the
  mutation calls \<open>freeze\<close> or \<open>unfreeze\<close>, as the action says, and returns the reloaded
  account. When the scope check passes and the account has a host of which the remote
  user is not an admin, the call ends in Unauthorized, whatever the type of the
  account; when the scope check passes and the account has no host, it ends in the
  validation error that the host cannot be found. In both cases the database is
  unchanged.
\<close>

theorem freeze_only_collective_or_fund:
  "(fetchAccountWithReference lib d (fz_account args) True = Inr (Some account) \<and>
    c_type account \<noteq> COLLECTIVE \<and> c_type account \<noteq> FUND \<longrightarrow>
      (\<exists>e. editAccountFreezeStatus lib args req d = (Inl e, d))) \<and>
   (checkRemoteUserCanUseHost lib req = None \<and>
    fetchAccountWithReference lib d (fz_account args) True = Inr (Some account) \<and>
    account_getHostCollective lib d account = Some host \<and>
    remoteUser req = Some ru \<and> isAdminOfCollective ru (Some host) \<longrightarrow>
      editAccountFreezeStatus lib args req d =
        (if c_type account \<noteq> COLLECTIVE \<and> c_type account \<noteq> FUND then
           (Inl (ValidationFailed ''Only collective and funds can be frozen. To freeze children accounts (projects, events) you need to freeze the parent account.''), d)
         else
           (case (case fz_action args of
                    FREEZE \<Rightarrow> freeze lib account (fz_message args) d
                  | UNFREEZE \<Rightarrow> unfreeze lib account (fz_message args) d) of
              (Some e, d') \<Rightarrow> (Inl e, d')
            | (None, d') \<Rightarrow> (reload d' account, d')))) \<and>
   (checkRemoteUserCanUseHost lib req = None \<and>
    fetchAccountWithReference lib d (fz_account args) True = Inr (Some account) \<and>
    account_getHostCollective lib d account = Some host \<and>
    remoteUser req = Some ru \<and> \<not> isAdminOfCollective ru (Some host) \<longrightarrow>
      editAccountFreezeStatus lib args req d = (Inl (Unauthorized []), d)) \<and>
   (checkRemoteUserCanUseHost lib req = None \<and>
    fetchAccountWithReference lib d (fz_account args) True = Inr (Some account) \<and>
    account_getHostCollective lib d account = None \<longrightarrow>
      editAccountFreezeStatus lib args req d =
        (Inl (ValidationFailed ''Cannot find the host of this account''), d))"
proof (intro conjI impI)
  assume other: "fetchAccountWithReference lib d (fz_account args) True = Inr (Some account) \<and>
    c_type account \<noteq> COLLECTIVE \<and> c_type account \<noteq> FUND"
  show "\<exists>e. editAccountFreezeStatus lib args req d = (Inl e, d)"
  proof (cases "checkRemoteUserCanUseHost lib req")
    case (Some e)
    then show ?thesis by (simp add: editAccountFreezeStatus_def)
  next
    case None
    with other show ?thesis
      by (simp add: editAccountFreezeStatus_def split: option.splits)
  qed
next
  assume authorized: "checkRemoteUserCanUseHost lib req = None \<and>
    fetchAccountWithReference lib d (fz_account args) True = Inr (Some account) \<and>
    account_getHostCollective lib d account = Some host \<and>
    remoteUser req = Some ru \<and> isAdminOfCollective ru (Some host)"
  then show "editAccountFreezeStatus lib args req d =
        (if c_type account \<noteq> COLLECTIVE \<and> c_type account \<noteq> FUND then
           (Inl (ValidationFailed ''Only collective and funds can be frozen. To freeze children accounts (projects, events) you need to freeze the parent account.''), d)
         else
           (case (case fz_action args of
                    FREEZE \<Rightarrow> freeze lib account (fz_message args) d
                  | UNFREEZE \<Rightarrow> unfreeze lib account (fz_message args) d) of
              (Some e, d') \<Rightarrow> (Inl e, d')
            | (None, d') \<Rightarrow> (reload d' account, d')))"
    by (simp add: editAccountFreezeStatus_def)
next
  assume "checkRemoteUserCanUseHost lib req = None \<and>
    fetchAccountWithReference lib d (fz_account args) True = Inr (Some account) \<and>
    account_getHostCollective lib d account = Some host \<and>
    remoteUser req = Some ru \<and> \<not> isAdminOfCollective ru (Some host)"
  then show "editAccountFreezeStatus lib args req d = (Inl (Unauthorized []), d)"
    by (simp add: editAccountFreezeStatus_def)
next
  assume "checkRemoteUserCanUseHost lib req = None \<and>
    fetchAccountWithReference lib d (fz_account args) True = Inr (Some account) \<and>
    account_getHostCollective lib d account = None"
  then show "editAccountFreezeStatus lib args req d =
        (Inl (ValidationFailed ''Cannot find the host of this account''), d)"
    by (simp add: editAccountFreezeStatus_def)
qed

theorem freeze_only_collective_or_fund_witness:
  "fetchAccountWithReference ex_lib ex_db 6 True = Inr (Some ex_event) \<and>
   c_type ex_event \<noteq> COLLECTIVE \<and> c_type ex_event \<noteq> FUND \<and>
   checkRemoteUserCanUseHost ex_lib (ex_request 9 [1]) = None \<and>
   account_getHostCollective ex_lib ex_db ex_event = Some ex_host \<and>
   editAccountFreezeStatus ex_lib \<lparr> fz_account = 6, fz_action = FREEZE, fz_message = None \<rparr>
     (ex_request 9 [1]) ex_db =
     (Inl (ValidationFailed ''Only collective and funds can be frozen. To freeze children accounts (projects, events) you need to freeze the parent account.''), ex_db) \<and>
   fetchAccountWithReference ex_lib ex_db 3 True = Inr (Some ex_recipient) \<and>
   c_type ex_recipient = COLLECTIVE \<and>
   account_getHostCollective ex_lib ex_db ex_recipient = Some ex_host \<and>
   editAccountFreezeStatus ex_lib \<lparr> fz_account = 3, fz_action = FREEZE, fz_message = None \<rparr>
     (ex_request 9 [1]) ex_db =
     (Inr (set_frozen ''true'' ex_recipient), snd (ex_freeze ''true'' ex_recipient None ex_db)) \<and>
   checkRemoteUserCanUseHost ex_lib (ex_request 9 [4]) = None \<and>
   editAccountFreezeStatus ex_lib \<lparr> fz_account = 3, fz_action = FREEZE, fz_message = None \<rparr>
     (ex_request 9 [4]) ex_db = (Inl (Unauthorized []), ex_db) \<and>
   fetchAccountWithReference ex_lib ex_db 7 True = Inr (Some ex_alice) \<and>
   account_getHostCollective ex_lib ex_db ex_alice = None \<and>
   editAccountFreezeStatus ex_lib \<lparr> fz_account = 7, fz_action = UNFREEZE, fz_message = None \<rparr>
     (ex_request 9 [1]) ex_db =
     (Inl (ValidationFailed ''Cannot find the host of this account''), ex_db)"
proof -
  obtain ru where ru: "remoteUser (ex_request 9 [1]) = Some ru" "isAdminOfCollective ru (Some ex_host)"
    by (simp add: ex_request_def ex_host_def mk_collective_def)
  have chk: "checkRemoteUserCanUseHost ex_lib (ex_request 9 [1]) = None"
    by (simp add: ex_lib_def ex_request_def)
  have ev: "fetchAccountWithReference ex_lib ex_db 6 True = Inr (Some ex_event)"
    "c_type ex_event \<noteq> COLLECTIVE \<and> c_type ex_event \<noteq> FUND"
    "account_getHostCollective ex_lib ex_db ex_event = Some ex_host"
    by (simp_all add: findByPk_def ex_defs acc_defs)
  have co: "fetchAccountWithReference ex_lib ex_db 3 True = Inr (Some ex_recipient)"
    "c_type ex_recipient = COLLECTIVE"
    "account_getHostCollective ex_lib ex_db ex_recipient = Some ex_host"
    by (simp_all add: findByPk_def ex_defs acc_defs)
  have fr: "freeze ex_lib ex_recipient None ex_db = (None, snd (ex_freeze ''true'' ex_recipient None ex_db))"
    by (simp add: ex_lib_def ex_freeze_def)
  have re: "reload (snd (ex_freeze ''true'' ex_recipient None ex_db)) ex_recipient =
      Inr (set_frozen ''true'' ex_recipient)"
    by (simp add: reload_def findByPk_def ex_defs acc_defs)
  from chk ev ru
    freeze_only_collective_or_fund [where d = ex_db and account = ex_event and lib = ex_lib
      and req = "ex_request 9 [1]" and host = ex_host and ru = ru
      and args = "\<lparr> fz_account = 6, fz_action = FREEZE, fz_message = None \<rparr>"]
  have a: "editAccountFreezeStatus ex_lib \<lparr> fz_account = 6, fz_action = FREEZE, fz_message = None \<rparr>
     (ex_request 9 [1]) ex_db =
     (Inl (ValidationFailed ''Only collective and funds can be frozen. To freeze children accounts (projects, events) you need to freeze the parent account.''), ex_db)"
    by simp
  from chk co ru fr re
    freeze_only_collective_or_fund [where d = ex_db and account = ex_recipient and lib = ex_lib
      and req = "ex_request 9 [1]" and host = ex_host and ru = ru
      and args = "\<lparr> fz_account = 3, fz_action = FREEZE, fz_message = None \<rparr>"]
  have b: "editAccountFreezeStatus ex_lib \<lparr> fz_account = 3, fz_action = FREEZE, fz_message = None \<rparr>
     (ex_request 9 [1]) ex_db =
     (Inr (set_frozen ''true'' ex_recipient), snd (ex_freeze ''true'' ex_recipient None ex_db))"
    by simp
  obtain ro where ro: "remoteUser (ex_request 9 [4]) = Some ro"
    "\<not> isAdminOfCollective ro (Some ex_host)"
    by (simp add: ex_request_def ex_host_def mk_collective_def)
  have chk_other: "checkRemoteUserCanUseHost ex_lib (ex_request 9 [4]) = None"
    by (simp add: ex_lib_def ex_request_def)
  from chk_other co ro
    freeze_only_collective_or_fund [where d = ex_db and account = ex_recipient and lib = ex_lib
      and req = "ex_request 9 [4]" and host = ex_host and ru = ro
      and args = "\<lparr> fz_account = 3, fz_action = FREEZE, fz_message = None \<rparr>"]
  have c: "editAccountFreezeStatus ex_lib \<lparr> fz_account = 3, fz_action = FREEZE, fz_message = None \<rparr>
     (ex_request 9 [4]) ex_db = (Inl (Unauthorized []), ex_db)"
    by simp
  have al: "fetchAccountWithReference ex_lib ex_db 7 True = Inr (Some ex_alice)"
    "account_getHostCollective ex_lib ex_db ex_alice = None"
    by (simp_all add: findByPk_def ex_defs acc_defs)
  from chk al
    freeze_only_collective_or_fund [where d = ex_db and account = ex_alice and lib = ex_lib
      and req = "ex_request 9 [1]"
      and args = "\<lparr> fz_account = 7, fz_action = UNFREEZE, fz_message = None \<rparr>"]
  have dd: "editAccountFreezeStatus ex_lib \<lparr> fz_account = 7, fz_action = UNFREEZE, fz_message = None \<rparr>
     (ex_request 9 [1]) ex_db =
     (Inl (ValidationFailed ''Cannot find the host of this account''), ex_db)"
    by simp
  from chk ev co a b chk_other c al dd show ?thesis by simp
qed

text \<open>
  Claim C7 as stated, for every account and caller, does not hold: the authorization
  check comes before the check of the type, so a caller who is not an admin of the
  event's host gets Unauthorized, not a validation error.
\<close>

theorem freeze_unauthorized_counterexample:
  "fetchAccountWithReference ex_lib ex_db 6 True = Inr (Some ex_event) \<and>
   c_type ex_event = EVENT \<and>
   editAccountFreezeStatus ex_lib \<lparr> fz_account = 6, fz_action = FREEZE, fz_message = None \<rparr>
     (ex_request 9 [4]) ex_db = (Inl (Unauthorized []), ex_db)"
  by (simp add: editAccountFreezeStatus_def findByPk_def ex_defs acc_defs)

subsection \<open>Two-factor enrollment\<close>

lemma enroll_method_tables:
  assumes "enroll_method lib ty token usr req d = Inr d1"
  shows "Users d1 = Users d \<and> Collectives d1 = Collectives d \<and> Activities d1 = Activities d \<and>
         (\<exists>m. UserTwoFactorMethods d1 = UserTwoFactorMethods d @ [m] \<and>
              m_UserId m = u_id usr \<and> m_method m = ty)"
  using assms
  by (cases ty)
     (auto simp: enroll_method_def UserTwoFactorMethod_create_def split: if_splits sum.splits)

lemma addTwoFactor_success:
  assumes "addTwoFactorAuthTokenToIndividual lib args req d = (Inr resp, d')"
  shows "\<exists>usr d1.
      fetchAccountWithReference lib d (add_account args) False = Inr (Some (r_account resp)) \<and>
      findUser d (c_id (r_account resp)) = Some usr \<and>
      enroll_method lib (case add_type args of None \<Rightarrow> TOTP | Some t \<Rightarrow> t) (add_token args) usr req d = Inr d1 \<and>
      r_recoveryCodes resp =
        (if length (twoFactorMethodsSupportedByUser lib (UserTwoFactorMethods d) usr) = 0
         then Some (map (cryptoRandomString lib) [0..<6]) else None) \<and>
      Users d' =
        (if length (twoFactorMethodsSupportedByUser lib (UserTwoFactorMethods d) usr) = 0
         then Users (update_recoveryCodes usr
                 (Some (map (crypto_hash lib) (map (cryptoRandomString lib) [0..<6]))) d1)
         else Users d1) \<and>
      UserTwoFactorMethods d' = UserTwoFactorMethods d1"
  using assms unfolding addTwoFactorAuthTokenToIndividual_def Let_def
  by (simp split: option.splits if_splits sum.splits)
     (auto simp: Activity_create_def update_recoveryCodes_def)

text \<open>
  Claim C3. When \<open>addTwoFactorAuthTokenToIndividual\<close> succeeds, one method has been added
  for the user. If the user had no enrolled method before, exactly six recovery codes
  are drawn from the random source, the response returns them in plain text, and the
  user's row stores their hashes (and nothing else changes in the Users table). If the
  user already had a method, the response carries no recovery codes and the Users
  table is unchanged.
\<close>

theorem enrollment_recovery_codes:
  assumes "addTwoFactorAuthTokenToIndividual lib args req d = (Inr resp, d')"
  shows "\<exists>usr.
      fetchAccountWithReference lib d (add_account args) False = Inr (Some (r_account resp)) \<and>
      findUser d (c_id (r_account resp)) = Some usr \<and>
      (\<exists>m. UserTwoFactorMethods d' = UserTwoFactorMethods d @ [m] \<and> m_UserId m = u_id usr) \<and>
      (if twoFactorMethodsSupportedByUser lib (UserTwoFactorMethods d) usr = []
       then (\<exists>codes. length codes = 6 \<and>
               codes = map (cryptoRandomString lib) [0..<6] \<and>
               r_recoveryCodes resp = Some codes \<and>
               Users d' =
                 map (\<lambda>u. if u_id u = u_id usr
                          then u \<lparr> u_twoFactorAuthRecoveryCodes := Some (map (crypto_hash lib) codes) \<rparr>
                          else u) (Users d))
       else r_recoveryCodes resp = None \<and> Users d' = Users d)"
proof -
  from addTwoFactor_success [OF assms] obtain usr d1 where
    acc: "fetchAccountWithReference lib d (add_account args) False = Inr (Some (r_account resp))"
    and usr: "findUser d (c_id (r_account resp)) = Some usr"
    and enr: "enroll_method lib (case add_type args of None \<Rightarrow> TOTP | Some t \<Rightarrow> t) (add_token args) usr req d = Inr d1"
    and codes: "r_recoveryCodes resp =
        (if length (twoFactorMethodsSupportedByUser lib (UserTwoFactorMethods d) usr) = 0
         then Some (map (cryptoRandomString lib) [0..<6]) else None)"
    and users: "Users d' =
        (if length (twoFactorMethodsSupportedByUser lib (UserTwoFactorMethods d) usr) = 0
         then Users (update_recoveryCodes usr
                 (Some (map (crypto_hash lib) (map (cryptoRandomString lib) [0..<6]))) d1)
         else Users d1)"
    and methods: "UserTwoFactorMethods d' = UserTwoFactorMethods d1"
    by blast
  from enroll_method_tables [OF enr] methods
  have m: "\<exists>m. UserTwoFactorMethods d' = UserTwoFactorMethods d @ [m] \<and> m_UserId m = u_id usr"
    and u1: "Users d1 = Users d"
    by auto
  have "if twoFactorMethodsSupportedByUser lib (UserTwoFactorMethods d) usr = []
       then (\<exists>codes. length codes = 6 \<and>
               codes = map (cryptoRandomString lib) [0..<6] \<and>
               r_recoveryCodes resp = Some codes \<and>
               Users d' =
                 map (\<lambda>u. if u_id u = u_id usr
                          then u \<lparr> u_twoFactorAuthRecoveryCodes := Some (map (crypto_hash lib) codes) \<rparr>
                          else u) (Users d))
       else r_recoveryCodes resp = None \<and> Users d' = Users d"
    using codes users u1 by (simp add: update_recoveryCodes_def)
  with acc usr m show ?thesis by blast
qed

theorem enrollment_recovery_codes_witness:
  "(\<exists>resp d'.
      addTwoFactorAuthTokenToIndividual ex_lib
        \<lparr> add_account = 7, add_type = Some YUBIKEY_OTP, add_token = ''ccccccbcgujhxx'' \<rparr>
        (ex_request 1 [7]) ex_db = (Inr resp, d') \<and>
      twoFactorMethodsSupportedByUser ex_lib (UserTwoFactorMethods ex_db)
        \<lparr> u_id = 1, u_CollectiveId = 7, u_twoFactorAuthRecoveryCodes = None \<rparr> = [] \<and>
      r_recoveryCodes resp = Some [''x'', ''xx'', ''xxx'', ''xxxx'', ''xxxxx'', ''xxxxxx''] \<and>
      map u_twoFactorAuthRecoveryCodes (Users d') =
        [Some [''hash:x'', ''hash:xx'', ''hash:xxx'', ''hash:xxxx'', ''hash:xxxxx'', ''hash:xxxxxx''],
         Some [''h'', ''k'']]) \<and>
   (\<exists>resp d'.
      addTwoFactorAuthTokenToIndividual ex_lib
        \<lparr> add_account = 8, add_type = Some YUBIKEY_OTP, add_token = ''ccccccbcgujhxx'' \<rparr>
        (ex_request 2 [8]) ex_db = (Inr resp, d') \<and>
      twoFactorMethodsSupportedByUser ex_lib (UserTwoFactorMethods ex_db)
        \<lparr> u_id = 2, u_CollectiveId = 8, u_twoFactorAuthRecoveryCodes = Some [''h'', ''k''] \<rparr> \<noteq> [] \<and>
      r_recoveryCodes resp = None \<and> Users d' = Users ex_db)"
proof -
  have alice: "findUser ex_db 7 = Some \<lparr> u_id = 1, u_CollectiveId = 7, u_twoFactorAuthRecoveryCodes = None \<rparr>"
    and bob: "findUser ex_db 8 = Some \<lparr> u_id = 2, u_CollectiveId = 8, u_twoFactorAuthRecoveryCodes = Some [''h'', ''k''] \<rparr>"
    and none: "twoFactorMethodsSupportedByUser ex_lib (UserTwoFactorMethods ex_db)
        \<lparr> u_id = 1, u_CollectiveId = 7, u_twoFactorAuthRecoveryCodes = None \<rparr> = []"
    and some: "twoFactorMethodsSupportedByUser ex_lib (UserTwoFactorMethods ex_db)
        \<lparr> u_id = 2, u_CollectiveId = 8, u_twoFactorAuthRecoveryCodes = Some [''h'', ''k''] \<rparr> \<noteq> []"
    and draws: "map (cryptoRandomString ex_lib) [0..<6] = [''x'', ''xx'', ''xxx'', ''xxxx'', ''xxxxx'', ''xxxxxx'']"
    and hash: "crypto_hash ex_lib = (\<lambda>s. ''hash:'' @ s)"
    and users: "Users ex_db = [\<lparr> u_id = 1, u_CollectiveId = 7, u_twoFactorAuthRecoveryCodes = None \<rparr>,
                \<lparr> u_id = 2, u_CollectiveId = 8, u_twoFactorAuthRecoveryCodes = Some [''h'', ''k''] \<rparr>]"
    by (simp_all add: findUser_def ex_db_def ex_lib_def upt_rec numeral_eq_Suc)
  have fetched: "fetchAccountWithReference ex_lib ex_db 7 False = Inr (Some ex_alice)" "c_id ex_alice = 7"
    "fetchAccountWithReference ex_lib ex_db 8 False = Inr (Some ex_bob)" "c_id ex_bob = 8"
    by (simp_all add: findByPk_def ex_defs acc_defs)
  obtain resp d' where run:
    "addTwoFactorAuthTokenToIndividual ex_lib
        \<lparr> add_account = 7, add_type = Some YUBIKEY_OTP, add_token = ''ccccccbcgujhxx'' \<rparr>
        (ex_request 1 [7]) ex_db = (Inr resp, d')"
    using fetched alice none
    by (simp add: addTwoFactorAuthTokenToIndividual_def enroll_method_def Let_def
        ex_lib_def ex_request_def)
  from enrollment_recovery_codes [OF run] fetched alice none draws hash users
  have a: "r_recoveryCodes resp = Some [''x'', ''xx'', ''xxx'', ''xxxx'', ''xxxxx'', ''xxxxxx''] \<and>
      map u_twoFactorAuthRecoveryCodes (Users d') =
        [Some [''hash:x'', ''hash:xx'', ''hash:xxx'', ''hash:xxxx'', ''hash:xxxxx'', ''hash:xxxxxx''],
         Some [''h'', ''k'']]"
    by auto
  obtain resp2 d2 where run2:
    "addTwoFactorAuthTokenToIndividual ex_lib
        \<lparr> add_account = 8, add_type = Some YUBIKEY_OTP, add_token = ''ccccccbcgujhxx'' \<rparr>
        (ex_request 2 [8]) ex_db = (Inr resp2, d2)"
    using fetched bob some
    by (simp add: addTwoFactorAuthTokenToIndividual_def enroll_method_def Let_def
        ex_lib_def ex_request_def)
  from enrollment_recovery_codes [OF run2] fetched bob some
  have b: "r_recoveryCodes resp2 = None \<and> Users d2 = Users ex_db"
    by auto
  have first: "\<exists>resp d'.
      addTwoFactorAuthTokenToIndividual ex_lib
        \<lparr> add_account = 7, add_type = Some YUBIKEY_OTP, add_token = ''ccccccbcgujhxx'' \<rparr>
        (ex_request 1 [7]) ex_db = (Inr resp, d') \<and>
      twoFactorMethodsSupportedByUser ex_lib (UserTwoFactorMethods ex_db)
        \<lparr> u_id = 1, u_CollectiveId = 7, u_twoFactorAuthRecoveryCodes = None \<rparr> = [] \<and>
      r_recoveryCodes resp = Some [''x'', ''xx'', ''xxx'', ''xxxx'', ''xxxxx'', ''xxxxxx''] \<and>
      map u_twoFactorAuthRecoveryCodes (Users d') =
        [Some [''hash:x'', ''hash:xx'', ''hash:xxx'', ''hash:xxxx'', ''hash:xxxxx'', ''hash:xxxxxx''],
         Some [''h'', ''k'']]"
    apply (rule exI [of _ resp])
    apply (rule exI [of _ d'])
    using run a none by (intro conjI) (rule run, rule none, simp_all only:)
  have second: "\<exists>resp d'.
      addTwoFactorAuthTokenToIndividual ex_lib
        \<lparr> add_account = 8, add_type = Some YUBIKEY_OTP, add_token = ''ccccccbcgujhxx'' \<rparr>
        (ex_request 2 [8]) ex_db = (Inr resp, d') \<and>
      twoFactorMethodsSupportedByUser ex_lib (UserTwoFactorMethods ex_db)
        \<lparr> u_id = 2, u_CollectiveId = 8, u_twoFactorAuthRecoveryCodes = Some [''h'', ''k''] \<rparr> \<noteq> [] \<and>
      r_recoveryCodes resp = None \<and> Users d' = Users ex_db"
    apply (rule exI [of _ resp2])
    apply (rule exI [of _ d2])
    using run2 b some by (intro conjI) (rule run2, rule some, simp_all only:)
  from first second show ?thesis by (rule conjI)
qed

subsection \<open>Two-factor removal\<close>






end
